theory Spec2Isabelle
  imports Complex_Main "HOL-Library.Monad_Syntax"
begin

section \<open>The global-alpha stack (class GlobalAlpha)\<close>

text \<open>
  JavaScript numbers are modelled as rationals.  Where the renderer computes with them
  and a property depends on the computed value (the dash pattern of a border side and
  the colour channels read from a string), every operation is rounded to the nearest
  IEEE-754 double, see the section on rounding below; coordinates and alpha values that
  are only stored, compared or passed on are kept as they are.  The private field
  \<open>stack: number[]\<close> is a list whose last element is the top of the stack
  (\<open>Array.push\<close> appends, \<open>Array.pop\<close> removes the last element).
\<close>

type_synonym GlobalAlpha = "rat list"

definition GlobalAlpha_new :: GlobalAlpha where
  "GlobalAlpha_new = [] @ [1]"

text \<open>\<open>get value()\<close>: \<open>this.stack[this.stack.length - 1] ?? 1\<close>.\<close>

definition ga_value :: "GlobalAlpha \<Rightarrow> rat" where
  "ga_value s = (if s = [] then 1 else last s)"

definition ga_push :: "rat \<Rightarrow> GlobalAlpha \<Rightarrow> GlobalAlpha" where
  "ga_push v s = s @ [v]"

text \<open>\<open>pop()\<close> returns the new stack together with the returned number.\<close>

definition ga_pop :: "GlobalAlpha \<Rightarrow> GlobalAlpha \<times> rat" where
  "ga_pop s = (if length s > 1 then (butlast s, last s) else (s, 1))"

datatype ga_op = Push rat | Pop

fun ga_step :: "GlobalAlpha \<Rightarrow> ga_op \<Rightarrow> GlobalAlpha" where
  "ga_step s (Push v) = ga_push v s"
| "ga_step s Pop = fst (ga_pop s)"

definition ga_run :: "ga_op list \<Rightarrow> GlobalAlpha \<Rightarrow> GlobalAlpha" where
  "ga_run os s = foldl ga_step s os"


section \<open>Native objects and the trace of backend calls\<close>

text \<open>
  Every object obtained from the canvas backend (\<open>new Paint()\<close>, \<open>new Path()\<close>,
  \<open>new Font(..)\<close>, \<open>MaskFilter.MakeBlur\<close>, \<open>PathEffect.MakeDash\<close>, shaders) lives in
  native memory and is released by an explicit \<open>delete()\<close>.  The model numbers the
  objects in allocation order and records creation and deletion in the trace.
\<close>

datatype kind = KPaint | KPath | KFont | KMaskFilter | KPathEffect | KShader

text \<open>Geometry of \<open>Path[]\<close>: each entry is a \<open>Vector\<close> or a \<open>BezierCurve\<close>.\<close>

datatype Vector = Vector (vx: rat) (vy: rat)

datatype Path =
    Vertex Vector
  | BezierCurve (curve_start: Vector) (startControl: Vector) (endControl: Vector) (curve_end: Vector)

datatype PathCmd =
    MoveTo rat rat
  | LineTo rat rat
  | CubicTo rat rat rat rat rat rat

text \<open>
  \<open>formatSkiaPath\<close>: the first entry's start point is a \<open>moveTo\<close>, every later one a
  \<open>lineTo\<close>; a curve adds a \<open>cubicTo\<close>.  The first argument is the running index of
  \<open>forEach\<close>; the test \<open>isBezierCurve(point)\<close> is the case distinction on the entry.
\<close>

fun formatSkiaPath :: "nat \<Rightarrow> Path list \<Rightarrow> PathCmd list" where
  "formatSkiaPath index [] = []"
| "formatSkiaPath index (point # rest) =
     (let start = (case point of BezierCurve s _ _ _ \<Rightarrow> s | Vertex v \<Rightarrow> v) in
        (if index = 0 then [MoveTo (vx start) (vy start)] else [LineTo (vx start) (vy start)])
        @ (case point of
             BezierCurve _ sc ec e \<Rightarrow> [CubicTo (vx sc) (vy sc) (vx ec) (vy ec) (vx e) (vy e)]
           | Vertex _ \<Rightarrow> [])
        @ formatSkiaPath (Suc index) rest)"

type_synonym Color = nat

text \<open>
  A resolved paint colour.  \<open>WithAlpha c a\<close> is the value of
  \<open>parseColorWithAlpha(c)\<close> read while the effective global alpha is \<open>a\<close>, that is
  \<open>multiplyByAlpha(parseColor(c), a)\<close>; \<open>Opaque c\<close> is \<open>parseColor(c)\<close>.
\<close>

datatype Rgba = WithAlpha Color rat | Opaque Color

datatype PaintStyle = Fill | Stroke

text \<open>
  A repeating radial-gradient shader: its object, centre, radius, colours and positions.
\<close>

datatype Shader = RadialRepeat nat rat rat rat "Rgba list" "rat list"

text \<open>A typeface answers glyph lookups; its glyph widths depend on the font size.\<close>

record Typeface =
  tfName :: nat
  tfGlyphIDs :: "string \<Rightarrow> nat list"
  tfGlyphWidths :: "rat \<Rightarrow> nat list \<Rightarrow> rat list"

record SkiaFont =
  fontObj :: nat
  fontTypeface :: Typeface
  fontSize :: rat

definition getGlyphIDs :: "SkiaFont \<Rightarrow> string \<Rightarrow> nat list" where
  "getGlyphIDs font text = tfGlyphIDs (fontTypeface font) text"

definition getGlyphWidths :: "SkiaFont \<Rightarrow> nat list \<Rightarrow> rat list" where
  "getGlyphWidths font ids = tfGlyphWidths (fontTypeface font) (fontSize font) ids"

definition getSize :: "SkiaFont \<Rightarrow> rat" where
  "getSize font = fontSize font"

text \<open>
  The state of a paint object at the moment it is handed to a draw call.  A dash path
  effect is \<open>(object, intervals)\<close>, a blur mask filter \<open>(object, sigma)\<close>; intervals
  that are no finite numbers are \<open>None\<close>.
\<close>

record SkiaPaint =
  paintObj :: nat
  paintStyle :: PaintStyle
  antiAlias :: bool
  paintColor :: "Rgba option"
  strokeWidth :: "rat option"
  pathEffect :: "(nat \<times> rat list option) option"
  maskFilter :: "(nat \<times> rat) option"
  paintShader :: "Shader option"

text \<open>
  One constructor per backend call the renderer makes.  \<open>BackgroundAndBorders n\<close> and
  \<open>Content n\<close> stand for the whole group of drawing calls that
  \<open>renderNodeBackgroundAndBorders\<close> and \<open>renderNodeContent\<close> issue for the element
  numbered \<open>n\<close> after they have applied the element's effects.
\<close>

datatype call =
    New kind nat
  | Delete kind nat
  | Save
  | Restore
  | Translate rat rat
  | Scale rat rat
  | Concat "rat list"
  | ClipPath nat "PathCmd list"
  | DrawPath nat "PathCmd list" SkiaPaint
  | DrawRect "rat list" SkiaPaint
  | DrawText string rat rat SkiaPaint SkiaFont
  | BackgroundAndBorders nat
  | Content nat

section \<open>Effects\<close>

text \<open>
  Modelled from the spec: the module \<open>../effects\<close> (\<open>IElementEffect\<close> and its type
  guards) is not among the sources.  The spec's data model gives the tagged union
  Opacity(value), Transform(2D affine matrix and pivot offset), Clip(path).
\<close>

datatype IElementEffect =
    OpacityEffect (opacity: rat)
  | TransformEffect (offsetX: rat) (offsetY: rat)
      (matrix: "rat \<times> rat \<times> rat \<times> rat \<times> rat \<times> rat")
  | ClipEffect (clip_path: "Path list")

fun isOpacityEffect :: "IElementEffect \<Rightarrow> bool" where
  "isOpacityEffect (OpacityEffect _) = True"
| "isOpacityEffect _ = False"

fun isTransformEffect :: "IElementEffect \<Rightarrow> bool" where
  "isTransformEffect (TransformEffect _ _ _) = True"
| "isTransformEffect _ = False"

fun isClipEffect :: "IElementEffect \<Rightarrow> bool" where
  "isClipEffect (ClipEffect _) = True"
| "isClipEffect _ = False"

section \<open>The renderer (class SkiaRenderer)\<close>

text \<open>
  The mutable fields of a renderer instance: the calls made so far on \<open>this.canvas\<close>
  and the backend, the number of native objects allocated so far, the active effects
  (last element = most recently applied) and the alpha stack.
\<close>

record renderer =
  calls :: "call list"
  nextObj :: nat
  activeEffects :: "IElementEffect list"
  globalAlpha :: GlobalAlpha

text \<open>\<open>SkiaRenderOptions\<close>, without the optional fallback font provider.\<close>

record SkiaRenderOptions =
  opt_scale :: rat
  opt_x :: rat
  opt_y :: rat
  opt_width :: rat
  opt_height :: rat
  backgroundColor :: "Color option"

text \<open>
  The constructor scales and translates the canvas and leaves \<open>_activeEffects = []\<close>
  and a fresh \<open>GlobalAlpha\<close>.
\<close>

definition SkiaRenderer_new :: "SkiaRenderOptions \<Rightarrow> renderer" where
  "SkiaRenderer_new options =
     \<lparr>calls = [Scale (opt_scale options) (opt_scale options),
               Translate (- opt_x options) (- opt_y options)],
      nextObj = 0, activeEffects = [], globalAlpha = GlobalAlpha_new\<rparr>"

definition emit :: "call \<Rightarrow> renderer \<Rightarrow> renderer" where
  "emit c r = r\<lparr>calls := calls r @ [c]\<rparr>"

definition alloc :: "kind \<Rightarrow> renderer \<Rightarrow> nat \<times> renderer" where
  "alloc k r = (nextObj r, r\<lparr>calls := calls r @ [New k (nextObj r)], nextObj := Suc (nextObj r)\<rparr>)"

definition release :: "kind \<Rightarrow> nat \<Rightarrow> renderer \<Rightarrow> renderer" where
  "release k h r = emit (Delete k h) r"

text \<open>\<open>createSkiaPath\<close>: a new native path filled by \<open>formatSkiaPath\<close>.\<close>

definition createSkiaPath :: "Path list \<Rightarrow> renderer \<Rightarrow> (nat \<times> PathCmd list) \<times> renderer" where
  "createSkiaPath paths r = (let (h, r1) = alloc KPath r in ((h, formatSkiaPath 0 paths), r1))"

text \<open>\<open>createPaint\<close>: a new paint with the style set and anti-aliasing on.\<close>

definition createPaint :: "PaintStyle \<Rightarrow> renderer \<Rightarrow> SkiaPaint \<times> renderer" where
  "createPaint st r =
     (let (h, r1) = alloc KPaint r in
        (\<lparr>paintObj = h, paintStyle = st, antiAlias = True, paintColor = None,
          strokeWidth = None, pathEffect = None, maskFilter = None, paintShader = None\<rparr>, r1))"

definition parseColorWithAlpha :: "Color \<Rightarrow> renderer \<Rightarrow> Rgba" where
  "parseColorWithAlpha c r = WithAlpha c (ga_value (globalAlpha r))"

subsection \<open>applyEffect, popEffect, applyEffects\<close>

definition applyEffect :: "IElementEffect \<Rightarrow> renderer \<Rightarrow> renderer" where
  "applyEffect effect r =
     (let r1 = emit Save r;
          r2 = (if isOpacityEffect effect
                then r1\<lparr>globalAlpha := ga_push (opacity effect) (globalAlpha r1)\<rparr> else r1);
          r3 = (if isTransformEffect effect
                then emit (Translate (- offsetX effect) (- offsetY effect))
                       (emit (case matrix effect of (m0, m1, m2, m3, m4, m5) \<Rightarrow>
                                Concat [m0, m2, m4, m1, m3, m5, 0, 0, 1])
                         (emit (Translate (offsetX effect) (offsetY effect)) r2))
                else r2);
          r4 = (if isClipEffect effect
                then (let (p, q) = createSkiaPath (clip_path effect) r3 in
                        release KPath (fst p) (emit (ClipPath (fst p) (snd p)) q))
                else r3)
      in r4\<lparr>activeEffects := activeEffects r4 @ [effect]\<rparr>)"

text \<open>
  \<open>popEffect\<close>: \<open>Array.pop\<close> on an empty array returns \<open>undefined\<close>; the canvas is
  restored in either case.
\<close>

definition popEffect :: "renderer \<Rightarrow> renderer" where
  "popEffect r =
     (case rev (activeEffects r) of
        [] \<Rightarrow> emit Restore r
      | effect # _ \<Rightarrow>
          (let r1 = emit Restore (r\<lparr>activeEffects := butlast (activeEffects r)\<rparr>) in
             if isOpacityEffect effect
             then r1\<lparr>globalAlpha := fst (ga_pop (globalAlpha r1))\<rparr> else r1))"

text \<open>The loop \<open>while (this._activeEffects.length) { this.popEffect(); }\<close>.\<close>

function popAll :: "renderer \<Rightarrow> renderer" where
  "popAll r = (if length (activeEffects r) \<noteq> 0 then popAll (popEffect r) else r)"
  by pat_completeness auto
termination
  by (relation "measure (\<lambda>r. length (activeEffects r))")
     (auto simp: popEffect_def emit_def Let_def split: list.splits)

declare popAll.simps [simp del]

definition applyEffects :: "IElementEffect list \<Rightarrow> renderer \<Rightarrow> renderer" where
  "applyEffects effects r = foldl (\<lambda>s effect. applyEffect effect s) (popAll r) effects"

section \<open>Rounding to IEEE-754 doubles\<close>

text \<open>
  A JavaScript \<open>number\<close> is an IEEE-754 double: zero, or \<open>m * 2^e\<close> or its negative
  with an integer \<open>0 < m < 2^53\<close> and \<open>-1074 \<le> e \<le> 971\<close>.  Every arithmetic operation returns the exact
  result rounded to the nearest such value, ties to the even \<open>m\<close>.  \<open>fl\<close> is that
  rounding on the rationals; it is \<open>None\<close> when the rounded result is an infinity.  The
  sign of zero is not represented: it shows only in a division by zero, which is \<open>None\<close>
  here as well.
\<close>

text \<open>The number of binary digits of a positive integer.\<close>

function bitLength :: "int \<Rightarrow> int" where
  "bitLength n = (if n \<le> 0 then 0 else 1 + bitLength (n div 2))"
  by pat_completeness auto
termination by (relation "measure nat") auto

declare bitLength.simps [simp del]

text \<open>Powers with an integer exponent, by repeated squaring: \<open>powInt b n = b^n\<close> for \<open>0 \<le> n\<close>.\<close>

definition sq :: "rat \<Rightarrow> rat" where
  "sq x = x * x"

function powInt :: "rat \<Rightarrow> int \<Rightarrow> rat" where
  "powInt b n = (if n \<le> 0 then 1 else (if even n then 1 else b) * sq (powInt b (n div 2)))"
  by pat_completeness auto
termination by (relation "measure (\<lambda>(b, n). nat n)") auto

declare powInt.simps [simp del]

definition pow2 :: "int \<Rightarrow> rat" where
  "pow2 e = (if 0 \<le> e then powInt 2 e else 1 / powInt 2 (- e))"

text \<open>Rounding to the nearest integer, ties to even.\<close>

definition roundHalfEven :: "rat \<Rightarrow> int" where
  "roundHalfEven q =
     (let f = \<lfloor>q\<rfloor>; d = q - of_int f
      in if d < 1 / 2 then f
         else if 1 / 2 < d then f + 1
         else if even f then f else f + 1)"

text \<open>
  The binary exponent of a positive rational: \<open>binade a = k\<close> when
  \<open>2^k \<le> a < 2^(k+1)\<close>.
\<close>

definition binade :: "rat \<Rightarrow> int" where
  "binade a = (if 1 \<le> a then bitLength \<lfloor>a\<rfloor> - 1 else - bitLength (\<lceil>1 / a\<rceil> - 1))"

text \<open>Rounding to a multiple of \<open>2^e\<close>.\<close>

definition roundAt :: "int \<Rightarrow> rat \<Rightarrow> rat" where
  "roundAt e a = of_int (roundHalfEven (a / pow2 e)) * pow2 e"

text \<open>
  A positive number in the binade \<open>k\<close> is rounded to a multiple of \<open>2^(k-52)\<close>, and to
  a multiple of \<open>2^(-1074)\<close> in the subnormal range.  The largest double is
  \<open>(2^53 - 1) * 2^971\<close>; what rounds to \<open>2^1024\<close> or lies beyond is an infinity.
\<close>

definition flPos :: "rat \<Rightarrow> rat option" where
  "flPos a =
     (let k = binade a
      in if 1024 \<le> k then None
         else if k = 1023 \<and> roundHalfEven (a / pow2 971) = 9007199254740992 then None
         else Some (roundAt (max (k - 52) (- 1074)) a))"

definition fl :: "rat \<Rightarrow> rat option" where
  "fl x = (if x = 0 then Some 0
           else if x < 0 then map_option uminus (flPos (- x))
           else flPos x)"

text \<open>
  The operators \<open>+\<close>, \<open>-\<close>, \<open>*\<close> and \<open>/\<close> on finite numbers.  The result is \<open>None\<close>
  when it is no finite number (an overflow, or a division by zero, which gives an
  infinity or NaN); what JavaScript goes on to compute from such a value is not followed.
\<close>

definition jsAdd :: "rat \<Rightarrow> rat \<Rightarrow> rat option" where
  "jsAdd x y = fl (x + y)"

definition jsSub :: "rat \<Rightarrow> rat \<Rightarrow> rat option" where
  "jsSub x y = fl (x - y)"

definition jsMul :: "rat \<Rightarrow> rat \<Rightarrow> rat option" where
  "jsMul x y = fl (x * y)"

definition jsDiv :: "rat \<Rightarrow> rat \<Rightarrow> rat option" where
  "jsDiv x y = (if y = 0 then None else fl (x / y))"

section \<open>Dashed and dotted borders\<close>

text \<open>
  \<open>BORDER_STYLE\<close>: the renderer compares against \<open>NONE = 0\<close>, \<open>DASHED = 2\<close>,
  \<open>DOTTED = 3\<close> and \<open>DOUBLE = 4\<close>; \<open>SOLID\<close> is the remaining value 1.
\<close>

datatype BORDER_STYLE = NONE | SOLID | DASHED | DOTTED | DOUBLE

datatype error = TypeError

text \<open>
  The dash and space lengths before balancing (lines 1199 to 1204).  For a dotted side
  the two products are computed and then overwritten by the width.
\<close>

definition baseDashSpace :: "BORDER_STYLE \<Rightarrow> rat \<Rightarrow> (rat \<times> rat) option" where
  "baseDashSpace style width =
     (let dashLength = (if width < 3 then jsMul width 3 else jsMul width 2);
          spaceLength = (if width < 3 then jsMul width 2 else Some width)
      in if style = DOTTED then Some (width, width)
         else do { d \<leftarrow> dashLength; s \<leftarrow> spaceLength; Some (d, s) })"

text \<open>
  The number of dashes and the two candidate spacings of the long-side branch (lines
  1214 to 1216); \<open>Math.floor\<close> is exact.
\<close>

definition numberOfDashes :: "rat \<Rightarrow> rat \<Rightarrow> rat \<Rightarrow> rat option" where
  "numberOfDashes sideLength dashLength spaceLength =
     do { a \<leftarrow> jsAdd sideLength spaceLength;
          b \<leftarrow> jsAdd dashLength spaceLength;
          q \<leftarrow> jsDiv a b;
          Some (of_int \<lfloor>q\<rfloor>) }"

definition minSpace :: "rat \<Rightarrow> rat \<Rightarrow> rat \<Rightarrow> rat option" where
  "minSpace sideLength dashLength n =
     do { p \<leftarrow> jsMul n dashLength;
          a \<leftarrow> jsSub sideLength p;
          b \<leftarrow> jsSub n 1;
          jsDiv a b }"

definition maxSpace :: "rat \<Rightarrow> rat \<Rightarrow> rat \<Rightarrow> rat option" where
  "maxSpace sideLength dashLength n =
     do { m \<leftarrow> jsAdd n 1;
          p \<leftarrow> jsMul m dashLength;
          a \<leftarrow> jsSub sideLength p;
          jsDiv a n }"

text \<open>
  The balancing of lines 1206 to 1221, on the side length and the base lengths.  The
  second operand of \<open>||\<close> is evaluated only when \<open>maxSpace\<close> is positive;
  \<open>Math.abs\<close> is exact.
\<close>

definition balance :: "rat \<Rightarrow> rat \<Rightarrow> rat \<Rightarrow> (rat \<times> rat) option" where
  "balance sideLength dashLength spaceLength =
     do { twice \<leftarrow> jsMul dashLength 2;
          if sideLength \<le> twice then Some (dashLength, spaceLength)
          else do {
            limit \<leftarrow> jsAdd twice spaceLength;
            if sideLength \<le> limit then
              do { twice' \<leftarrow> jsMul 2 dashLength;
                   whole \<leftarrow> jsAdd twice' spaceLength;
                   multiplier \<leftarrow> jsDiv sideLength whole;
                   d \<leftarrow> jsMul dashLength multiplier;
                   s \<leftarrow> jsMul spaceLength multiplier;
                   Some (d, s) }
            else
              do { n \<leftarrow> numberOfDashes sideLength dashLength spaceLength;
                   mn \<leftarrow> minSpace sideLength dashLength n;
                   mx \<leftarrow> maxSpace sideLength dashLength n;
                   if mx \<le> 0 then Some (dashLength, mn)
                   else do { a \<leftarrow> jsSub spaceLength mn;
                             b \<leftarrow> jsSub spaceLength mx;
                             Some (dashLength, if \<bar>a\<bar> < \<bar>b\<bar> then mn else mx) } } } }"

definition dashPattern :: "BORDER_STYLE \<Rightarrow> rat \<Rightarrow> rat \<Rightarrow> (rat \<times> rat) option" where
  "dashPattern style width sideLength =
     do { (dashLength, spaceLength) \<leftarrow> baseDashSpace style width;
          balance sideLength dashLength spaceLength }"

text \<open>
  The length of the side, from the start of \<open>boxPaths[0]\<close> to the end of
  \<open>boxPaths[1]\<close>: horizontal sides (0 and 2) use the x distance, the others the y
  distance.
\<close>

definition borderLength :: "nat \<Rightarrow> Path \<Rightarrow> Path \<Rightarrow> rat option" where
  "borderLength side p0 p1 =
     (let startX = (case p0 of BezierCurve s _ _ _ \<Rightarrow> vx s | Vertex v \<Rightarrow> vx v);
          startY = (case p0 of BezierCurve s _ _ _ \<Rightarrow> vy s | Vertex v \<Rightarrow> vy v);
          endX = (case p1 of BezierCurve _ _ _ e \<Rightarrow> vx e | Vertex v \<Rightarrow> vx v);
          endY = (case p1 of BezierCurve _ _ _ e \<Rightarrow> vy e | Vertex v \<Rightarrow> vy v)
      in if side = 0 \<or> side = 2 then map_option abs (jsSub startX endX)
         else map_option abs (jsSub startY endY))"

text \<open>The intervals handed to \<open>PathEffect.MakeDash\<close>.\<close>

definition dashIntervals :: "BORDER_STYLE \<Rightarrow> (rat \<times> rat) option \<Rightarrow> rat list option" where
  "dashIntervals style pattern =
     (if style = DOTTED
      then do { (dashLength, spaceLength) \<leftarrow> pattern;
                whole \<leftarrow> jsAdd dashLength spaceLength;
                Some [0, whole] }
      else map_option (\<lambda>(dashLength, spaceLength). [dashLength, spaceLength]) pattern)"

text \<open>The stroke width of a side that is not dotted: \<open>width * 2 + 1.1\<close>.\<close>

definition dashedStrokeWidth :: "rat \<Rightarrow> rat option" where
  "dashedStrokeWidth width =
     do { twice \<leftarrow> jsMul width 2;
          extra \<leftarrow> fl (11 / 10);
          jsAdd twice extra }"

text \<open>
  \<open>renderDashedDottedBorder\<close>.  \<open>strokePaths\<close> and \<open>boxPaths\<close> are the results of
  \<open>parsePathForBorderStroke(curvePoints, side)\<close> and \<open>parsePathForBorder(curvePoints,
  side)\<close>; \<open>makeDash\<close> tells whether \<open>PathEffect.MakeDash\<close> returns an object for the
  given intervals (the code allows for \<open>null\<close> with \<open>pathEffect?.delete()\<close>).  Reading
  \<open>boxPaths[0]\<close> or \<open>boxPaths[1]\<close> of a shorter array gives \<open>undefined\<close>, on which
  \<open>isBezierCurve\<close> throws.  Intervals and a stroke width that are no finite numbers
  are \<open>None\<close>.
\<close>

definition renderDashedDottedBorder ::
  "(rat list option \<Rightarrow> bool) \<Rightarrow> Color \<Rightarrow> rat \<Rightarrow> nat \<Rightarrow> Path list \<Rightarrow> Path list
     \<Rightarrow> BORDER_STYLE \<Rightarrow> renderer \<Rightarrow> error + renderer" where
  "renderDashedDottedBorder makeDash color width side strokePaths boxPaths style r =
     (let r1 = emit Save r;
          (paint0, r2) = createPaint Stroke r1;
          paint1 = paint0\<lparr>paintColor := Some (parseColorWithAlpha color r2)\<rparr>;
          r3 = (if style = DASHED
                then (let (boxPath, q) = createSkiaPath boxPaths r2
                      in release KPath (fst boxPath) (emit (ClipPath (fst boxPath) (snd boxPath)) q))
                else r2)
      in case boxPaths of
           p0 # p1 # _ \<Rightarrow>
             (let pattern = do { sideLength \<leftarrow> borderLength side p0 p1;
                                 dashPattern style width sideLength };
                  intervals = dashIntervals style pattern;
                  paint2 = paint1\<lparr>strokeWidth :=
                             (if style = DOTTED then Some width else dashedStrokeWidth width)\<rparr>;
                  (effect, r4) = (if makeDash intervals
                                  then (let (h, q) = alloc KPathEffect r3 in (Some (h, intervals), q))
                                  else (None, r3));
                  paint3 = paint2\<lparr>pathEffect := effect\<rparr>;
                  (strokePath, r5) = createSkiaPath (if style = DOTTED then strokePaths else take 2 boxPaths) r4;
                  r6 = emit (DrawPath (fst strokePath) (snd strokePath) paint3) r5;
                  r7 = release KPaint (paintObj paint3) r6;
                  r8 = release KPath (fst strokePath) r7;
                  r9 = (case effect of Some (h, _) \<Rightarrow> release KPathEffect h r8 | None \<Rightarrow> r8)
              in Inr (emit Restore r9))
         | _ \<Rightarrow> Inl TypeError)"

text \<open>
  Readings of a trace: the net save depth, and the objects created and deleted in it.
\<close>

definition saveDepth :: "call list \<Rightarrow> int" where
  "saveDepth cs = int (count_list cs Save) - int (count_list cs Restore)"

fun created :: "call list \<Rightarrow> (kind \<times> nat) list" where
  "created [] = []"
| "created (New k h # cs) = (k, h) # created cs"
| "created (_ # cs) = created cs"

fun deleted :: "call list \<Rightarrow> (kind \<times> nat) list" where
  "deleted [] = []"
| "deleted (Delete k h # cs) = (k, h) # deleted cs"
| "deleted (_ # cs) = deleted cs"

section \<open>Radial-gradient background layers\<close>

record Bounds =
  b_left :: rat
  b_top :: rat
  b_width :: rat
  b_height :: rat



section \<open>Text\<close>

text \<open>
  Strings are lists of characters; a grapheme is a string.  The collaborators of the text
  engine are inputs: \<open>segmentGraphemes\<close> (which defers to \<open>Intl.Segmenter\<close> or
  \<open>splitGraphemes\<close>), the optional \<open>options.fallbackFontProvider\<close> with its
  \<open>getFallbackFontTypeface\<close>, and \<open>options.scale\<close>.
\<close>

record TextBounds =
  tb_text :: string
  tb_bounds :: Bounds

record TextEnv =
  segmentGraphemes :: "string \<Rightarrow> string list"
  fallbackFontProvider :: "(string \<Rightarrow> Typeface option) option"
  scale :: rat

definition areGlyphsMissing :: "SkiaFont \<Rightarrow> string \<Rightarrow> bool" where
  "areGlyphsMissing font text =
     (let glyphs = getGlyphIDs font text in length glyphs = 0 \<or> list_ex (\<lambda>glyph. glyph = 0) glyphs)"

text \<open>
  The callback of \<open>letters.reduce\<close>: the accumulator is the running x position; the
  renderer state is threaded along with it.
\<close>

definition renderLetter ::
  "TextEnv \<Rightarrow> rat \<Rightarrow> rat \<Rightarrow> SkiaPaint \<Rightarrow> SkiaFont \<Rightarrow> rat \<times> renderer \<Rightarrow> string \<Rightarrow> rat \<times> renderer" where
  "renderLetter env letterSpacing y paint font acc letter =
     (case acc of (left, r) \<Rightarrow>
       (let glyphIDs = getGlyphIDs font letter;
            (fallbackFont, r1) =
              (if length glyphIDs = 0 \<or> list_ex (\<lambda>id. id = 0) glyphIDs
               then (case (case fallbackFontProvider env of
                             None \<Rightarrow> None
                           | Some provider \<Rightarrow> provider letter) of
                       None \<Rightarrow> (None, r)
                     | Some typeface \<Rightarrow>
                         (let (h, q) = alloc KFont r
                          in (Some \<lparr>fontObj = h, fontTypeface = typeface, fontSize = getSize font\<rparr>, q)))
               else (None, r));
            finalFont = (case fallbackFont of None \<Rightarrow> font | Some f \<Rightarrow> f);
            r2 = emit (DrawText letter left y paint finalFont) r1;
            widths = getGlyphWidths finalFont glyphIDs;
            r3 = (case fallbackFont of None \<Rightarrow> r2 | Some f \<Rightarrow> release KFont (fontObj f) r2);
            letterWidth = (if length widths > 0 then hd widths else 0)
        in (left + letterWidth + letterSpacing, r3)))"

definition renderTextWithLetterSpacing ::
  "TextEnv \<Rightarrow> TextBounds \<Rightarrow> rat \<Rightarrow> rat \<Rightarrow> SkiaPaint \<Rightarrow> SkiaFont \<Rightarrow> renderer \<Rightarrow> renderer" where
  "renderTextWithLetterSpacing env text letterSpacing baseline paint font r =
     (if letterSpacing = 0 \<and> \<not> areGlyphsMissing font (tb_text text)
      then emit (DrawText (tb_text text) (b_left (tb_bounds text))
                   (b_top (tb_bounds text) + baseline) paint font) r
      else snd (foldl (renderLetter env letterSpacing (b_top (tb_bounds text) + baseline) paint font)
                  (b_left (tb_bounds text), r)
                  (segmentGraphemes env (tb_text text))))"

subsection \<open>Text nodes\<close>

text \<open>
  The style values \<open>renderTextNode\<close> reads.  Lengths are given by their \<open>number\<close>.
  \<open>PAINT_ORDER_LAYER\<close> is \<open>FILL = 0\<close>, \<open>STROKE = 1\<close>, \<open>MARKERS = 2\<close>;
  \<open>TEXT_DECORATION_LINE\<close> is \<open>NONE = 0\<close>, \<open>UNDERLINE = 1\<close>, \<open>OVERLINE = 2\<close>,
  \<open>LINE_THROUGH = 3\<close>, \<open>BLINK = 4\<close>.
\<close>

record TextShadow =
  ts_color :: Color
  ts_offsetX :: rat
  ts_offsetY :: rat
  ts_blur :: rat

datatype PAINT_ORDER_LAYER = FILL | STROKE | MARKERS

datatype TEXT_DECORATION_LINE = NO_LINE | UNDERLINE | OVERLINE | LINE_THROUGH | BLINK

record TextStyles =
  st_color :: Color
  letterSpacing :: rat
  textShadow :: "TextShadow list"
  textDecorationLine :: "TEXT_DECORATION_LINE list"
  textDecorationColor :: "Color option"
  webkitTextStrokeWidth :: rat
  webkitTextStrokeColor :: Color
  paintOrder :: "PAINT_ORDER_LAYER list"

text \<open>
  \<open>String.prototype.trim\<close> on characters up to U+00FF: the white space and line
  terminators there are U+0009 to U+000D, U+0020 and U+00A0.
\<close>

definition isWhiteSpace :: "char \<Rightarrow> bool" where
  "isWhiteSpace c = ((of_char c :: nat) \<in> {9, 10, 11, 12, 13, 32, 160})"

definition trim :: "string \<Rightarrow> string" where
  "trim s = rev (dropWhile isWhiteSpace (rev (dropWhile isWhiteSpace s)))"

definition jsRound :: "rat \<Rightarrow> rat" where
  "jsRound x = of_int \<lfloor>x + 1 / 2\<rfloor>"

definition jsCeil :: "rat \<Rightarrow> rat" where
  "jsCeil x = of_int \<lceil>x\<rceil>"

text \<open>The body of \<open>textShadows.slice(0).reverse().forEach\<close>.\<close>

definition renderTextShadow ::
  "TextEnv \<Rightarrow> TextStyles \<Rightarrow> rat \<Rightarrow> TextBounds \<Rightarrow> SkiaPaint \<Rightarrow> SkiaFont \<Rightarrow> renderer \<Rightarrow> TextShadow
     \<Rightarrow> renderer" where
  "renderTextShadow env styles baseline textBounds fillPaint font r shadow =
     (let (h, r1) = alloc KPaint r;
          shadowPaint0 = fillPaint\<lparr>paintObj := h,
                                   paintColor := Some (parseColorWithAlpha (ts_color shadow) r1)\<rparr>;
          r2 = emit Save r1;
          r3 = emit (Translate (ts_offsetX shadow * scale env) (ts_offsetY shadow * scale env)) r2;
          (b, r4) = alloc KMaskFilter r3;
          shadowPaint = shadowPaint0\<lparr>maskFilter := Some (b, ts_blur shadow / 2)\<rparr>;
          r5 = renderTextWithLetterSpacing env textBounds (letterSpacing styles) baseline
                 shadowPaint font r4;
          r6 = emit Restore r5;
          r7 = release KPaint h r6
      in release KMaskFilter b r7)"

definition decorationRect :: "rat \<Rightarrow> rat \<Rightarrow> Bounds \<Rightarrow> TEXT_DECORATION_LINE \<Rightarrow> rat list" where
  "decorationRect baseline middle bounds line =
     (case line of
        UNDERLINE \<Rightarrow> [b_left bounds, jsRound (b_top bounds + baseline),
                      b_left bounds + b_width bounds, jsRound (b_top bounds + baseline) + 1]
      | OVERLINE \<Rightarrow> [b_left bounds, jsRound (b_top bounds),
                     b_left bounds + b_width bounds, jsRound (b_top bounds) + 1]
      | LINE_THROUGH \<Rightarrow> [b_left bounds, jsCeil (b_top bounds + middle),
                         b_left bounds + b_width bounds, jsCeil (b_top bounds + middle) + 1]
      | _ \<Rightarrow> [0, 0, 0, 0])"

text \<open>The body of \<open>styles.textDecorationLine.forEach\<close>.\<close>

definition drawDecoration ::
  "rat \<Rightarrow> rat \<Rightarrow> TextBounds \<Rightarrow> SkiaPaint \<Rightarrow> renderer \<Rightarrow> TEXT_DECORATION_LINE \<Rightarrow> renderer" where
  "drawDecoration baseline middle textBounds decorationPaint r line =
     (let rect = decorationRect baseline middle (tb_bounds textBounds) line
      in if rect ! 2 > rect ! 0 \<and> rect ! 3 > rect ! 1
         then emit (DrawRect rect decorationPaint) r else r)"

definition renderDecorations ::
  "TextStyles \<Rightarrow> rat \<Rightarrow> rat \<Rightarrow> TextBounds \<Rightarrow> renderer \<Rightarrow> renderer" where
  "renderDecorations styles baseline middle textBounds r =
     (if length (textDecorationLine styles) \<noteq> 0 then
        (let (decorationPaint0, r1) = createPaint Fill r;
             decorationColor = (case textDecorationColor styles of
                                  None \<Rightarrow> st_color styles
                                | Some c \<Rightarrow> if c = 0 then st_color styles else c);
             decorationPaint = decorationPaint0\<lparr>paintColor := Some (parseColorWithAlpha decorationColor r1)\<rparr>;
             r2 = foldl (drawDecoration baseline middle textBounds decorationPaint)
                    r1 (textDecorationLine styles)
         in release KPaint (paintObj decorationPaint) r2)
      else r)"

text \<open>\<open>case PAINT_ORDER_LAYER.FILL\<close> (lines 404 to 470).\<close>

definition renderFillLayer ::
  "TextEnv \<Rightarrow> TextStyles \<Rightarrow> rat \<Rightarrow> rat \<Rightarrow> TextBounds \<Rightarrow> SkiaFont \<Rightarrow> renderer \<Rightarrow> renderer" where
  "renderFillLayer env styles baseline middle textBounds font r =
     (let (fillPaint0, r1) = createPaint Fill r;
          fillPaint = fillPaint0\<lparr>paintColor := Some (parseColorWithAlpha (st_color styles) r1)\<rparr>;
          r2 = renderTextWithLetterSpacing env textBounds (letterSpacing styles) baseline
                 fillPaint font r1;
          r3 = (if length (textShadow styles) \<noteq> 0 \<and> length (trim (tb_text textBounds)) \<noteq> 0
                then foldl (renderTextShadow env styles baseline textBounds fillPaint font) r2
                       (rev (textShadow styles))
                else r2);
          r4 = renderDecorations styles baseline middle textBounds r3
      in release KPaint (paintObj fillPaint) r4)"

text \<open>\<open>case PAINT_ORDER_LAYER.STROKE\<close> (lines 472 to 481).\<close>

definition renderStrokeLayer ::
  "TextEnv \<Rightarrow> TextStyles \<Rightarrow> rat \<Rightarrow> TextBounds \<Rightarrow> SkiaFont \<Rightarrow> renderer \<Rightarrow> renderer" where
  "renderStrokeLayer env styles baseline textBounds font r =
     (if webkitTextStrokeWidth styles \<noteq> 0 \<and> length (trim (tb_text textBounds)) \<noteq> 0 then
        (let (strokePaint0, r1) = createPaint Stroke r;
             strokePaint = strokePaint0\<lparr>paintColor := Some (parseColorWithAlpha (webkitTextStrokeColor styles) r1),
                                        strokeWidth := Some (webkitTextStrokeWidth styles)\<rparr>;
             r2 = renderTextWithLetterSpacing env textBounds (letterSpacing styles) baseline
                    strokePaint font r1
         in release KPaint (paintObj strokePaint) r2)
      else r)"

text \<open>
  \<open>renderTextNode\<close>.  The typeface and size that \<open>createSkiaFont(styles)\<close> settles on
  and the metrics \<open>baseline\<close> and \<open>middle\<close> of \<open>fontMetrics.getMetrics\<close> are inputs; the
  font object itself is created here and deleted at the end.
\<close>

definition renderTextNode ::
  "TextEnv \<Rightarrow> Typeface \<Rightarrow> rat \<Rightarrow> rat \<Rightarrow> rat \<Rightarrow> TextBounds list \<Rightarrow> TextStyles \<Rightarrow> renderer \<Rightarrow> renderer" where
  "renderTextNode env typeface px baseline middle textBoundsList styles r =
     (let (h, r1) = alloc KFont r;
          font = \<lparr>fontObj = h, fontTypeface = typeface, fontSize = px\<rparr>;
          r2 = foldl (\<lambda>s textBounds.
                  if b_width (tb_bounds textBounds) \<le> 0 \<or> b_height (tb_bounds textBounds) \<le> 0 then s
                  else foldl (\<lambda>s' paintOrderLayer.
                          (case paintOrderLayer of
                             FILL \<Rightarrow> renderFillLayer env styles baseline middle textBounds font s'
                           | STROKE \<Rightarrow> renderStrokeLayer env styles baseline textBounds font s'
                           | MARKERS \<Rightarrow> s'))
                        s (paintOrder styles))
                r1 textBoundsList
      in release KFont h r2)"

text \<open>
  What a trace says about text passes: a text draw is reduced to the colour and the blur
  of its paint; translations, saves and restores are kept; everything else is dropped.
\<close>

datatype pass = TextPass "Rgba option" "rat option" | Offset rat rat | Saved | Restored

fun passOf :: "call \<Rightarrow> pass list" where
  "passOf (DrawText _ _ _ p _) = [TextPass (paintColor p) (map_option snd (maskFilter p))]"
| "passOf (Translate x y) = [Offset x y]"
| "passOf Save = [Saved]"
| "passOf Restore = [Restored]"
| "passOf _ = []"

definition passes :: "call list \<Rightarrow> pass list" where
  "passes cs = concat (map passOf cs)"

text \<open>The number of text draws one run takes: one on the fast path, one per grapheme otherwise.\<close>

definition drawsPerRun :: "TextEnv \<Rightarrow> SkiaFont \<Rightarrow> rat \<Rightarrow> string \<Rightarrow> nat" where
  "drawsPerRun env font spacing text =
     (if spacing = 0 \<and> \<not> areGlyphsMissing font text then 1
      else length (segmentGraphemes env text))"

text \<open>The pass of a text draw made with a given paint, and the passes of one shadow.\<close>

definition passOfPaint :: "SkiaPaint \<Rightarrow> pass" where
  "passOfPaint p = TextPass (paintColor p) (map_option snd (maskFilter p))"

definition shadowPasses :: "rat \<Rightarrow> rat \<Rightarrow> nat \<Rightarrow> TextShadow \<Rightarrow> pass list" where
  "shadowPasses sc alpha k shadow =
     [Saved, Offset (ts_offsetX shadow * sc) (ts_offsetY shadow * sc)]
     @ replicate k (TextPass (Some (WithAlpha (ts_color shadow) alpha)) (Some (ts_blur shadow / 2)))
     @ [Restored]"

section \<open>Colour strings (parseColor)\<close>

text \<open>
  A JavaScript number as \<open>parseInt\<close> and \<open>parseFloat\<close> return it: a finite double, NaN
  or an infinity.
\<close>

datatype jsnum = Num rat | NaN | PosInf | NegInf

text \<open>
  The Number value of a real: the nearest double, or an infinity beyond the largest
  double.
\<close>

definition roundNum :: "rat \<Rightarrow> jsnum" where
  "roundNum x = (case fl x of Some y \<Rightarrow> Num y | None \<Rightarrow> if 0 < x then PosInf else NegInf)"



definition startsWith :: "string \<Rightarrow> string \<Rightarrow> bool" where
  "startsWith prefix s = (take (length prefix) s = prefix)"





definition isDigit :: "char \<Rightarrow> bool" where
  "isDigit c = (48 \<le> (of_char c :: nat) \<and> (of_char c :: nat) \<le> 57)"

definition decimalDigits :: "string \<Rightarrow> int" where
  "decimalDigits z = foldl (\<lambda>a c. 10 * a + (of_char c - 48)) 0 z"

text \<open>
  \<open>parseFloat(s)\<close>: leading white space is skipped; the longest prefix that is a decimal
  literal (optional sign, then \<open>Infinity\<close>, or digits with an optional fraction and an
  optional exponent) is read, and NaN results when there is none.  The result is the
  exact decimal value rounded to a double, an infinity when it is too large.
\<close>

definition parseFloat :: "string \<Rightarrow> jsnum" where
  "parseFloat s =
     (let s1 = dropWhile isWhiteSpace s;
          negative = startsWith ''-'' s1;
          s2 = (if startsWith ''-'' s1 \<or> startsWith ''+'' s1 then drop 1 s1 else s1)
      in if startsWith ''Infinity'' s2 then (if negative then NegInf else PosInf)
         else
           (let intDigits = takeWhile isDigit s2;
                s3 = drop (length intDigits) s2;
                fracDigits = (if startsWith ''.'' s3 then takeWhile isDigit (drop 1 s3) else []);
                s4 = (if startsWith ''.'' s3 then drop (Suc (length fracDigits)) s3 else s3);
                s5 = (if startsWith ''e'' s4 \<or> startsWith ''E'' s4 then drop 1 s4 else []);
                expNegative = startsWith ''-'' s5;
                expDigits = takeWhile isDigit
                              (if startsWith ''-'' s5 \<or> startsWith ''+'' s5 then drop 1 s5 else s5);
                mantissa = of_int (decimalDigits intDigits)
                             + of_int (decimalDigits fracDigits) / powInt 10 (int (length fracDigits));
                scaled = (if expNegative then mantissa / powInt 10 (decimalDigits expDigits)
                          else mantissa * powInt 10 (decimalDigits expDigits))
            in if intDigits = [] \<and> fracDigits = [] then NaN
               else roundNum ((if negative then - 1 else 1) * scaled)))"














section \<open>The stacking-context walker\<close>

text \<open>
  Modelled from the spec: \<open>ElementPaint\<close> and \<open>StackingContext\<close> are declared in
  \<open>../stacking-context\<close>, which is not among the sources.  An element paint carries
  the answer of \<open>container.styles.isVisible()\<close> and \<open>getEffects(target)\<close>; a stacking
  context is an element with its seven child buckets.  \<open>elemNo\<close> names the element in
  the trace.
\<close>

record ElementPaint =
  elemNo :: nat
  isVisible :: bool
  getEffects :: "nat \<Rightarrow> IElementEffect list"

datatype StackingContext =
  StackingContext
    (element: ElementPaint)
    (negativeZIndex: "StackingContext list")
    (zeroOrAutoZIndexOrTransformedOrOpacity: "StackingContext list")
    (positiveZIndex: "StackingContext list")
    (nonPositionedFloats: "StackingContext list")
    (nonPositionedInlineLevel: "StackingContext list")
    (inlineLevel: "ElementPaint list")
    (nonInlineLevel: "ElementPaint list")

text \<open>\<open>EffectTarget.BACKGROUND_BORDERS = 2\<close>, \<open>EffectTarget.CONTENT = 4\<close>.\<close>

definition renderNodeBackgroundAndBorders :: "ElementPaint \<Rightarrow> renderer \<Rightarrow> renderer" where
  "renderNodeBackgroundAndBorders paint r =
     emit (BackgroundAndBorders (elemNo paint)) (applyEffects (getEffects paint 2) r)"

definition renderNodeContent :: "ElementPaint \<Rightarrow> renderer \<Rightarrow> renderer" where
  "renderNodeContent paint r =
     emit (Content (elemNo paint)) (applyEffects (getEffects paint 4) r)"

definition renderNode :: "ElementPaint \<Rightarrow> renderer \<Rightarrow> renderer" where
  "renderNode paint r =
     (if isVisible paint
      then renderNodeContent paint (renderNodeBackgroundAndBorders paint r)
      else r)"

fun renderStack :: "StackingContext \<Rightarrow> renderer \<Rightarrow> renderer"
and renderStackContent :: "StackingContext \<Rightarrow> renderer \<Rightarrow> renderer" where
  "renderStack (StackingContext el neg zero pos floats npil inl nonInl) r =
     (if isVisible el
      then renderStackContent (StackingContext el neg zero pos floats npil inl nonInl) r
      else r)"
| "renderStackContent (StackingContext el neg zero pos floats npil inl nonInl) r =
     (let r1 = renderNodeBackgroundAndBorders el r;
          r2 = foldl (\<lambda>s child. renderStack child s) r1 neg;
          r3 = renderNodeContent el r2;
          r4 = foldl (\<lambda>s child. renderNode child s) r3 nonInl;
          r5 = foldl (\<lambda>s child. renderStack child s) r4 floats;
          r6 = foldl (\<lambda>s child. renderStack child s) r5 npil;
          r7 = foldl (\<lambda>s child. renderNode child s) r6 inl;
          r8 = foldl (\<lambda>s child. renderStack child s) r7 zero
      in foldl (\<lambda>s child. renderStack child s) r8 pos)"

text \<open>
  \<open>render\<close>: the optional page background, the walk of the tree that
  \<open>parseStackingContexts\<close> built (its result is the argument \<open>stack\<close>), and the final
  \<open>applyEffects([])\<close>.  \<open>backgroundColor\<close> is tested for truthiness, so \<open>null\<close> and
  the number 0 both skip the rectangle.
\<close>

definition render :: "SkiaRenderOptions \<Rightarrow> StackingContext \<Rightarrow> renderer \<Rightarrow> renderer" where
  "render options stack r =
     (let r1 = (case backgroundColor options of
                  None \<Rightarrow> r
                | Some c \<Rightarrow>
                    if c = 0 then r
                    else (let (bgPaint, r') = createPaint Fill r;
                              bgPaint' = bgPaint\<lparr>paintColor := Some (parseColorWithAlpha c r')\<rparr>
                          in release KPaint (paintObj bgPaint')
                               (emit (DrawRect [opt_x options, opt_y options,
                                                opt_x options + opt_width options,
                                                opt_y options + opt_height options] bgPaint') r')));
          r2 = renderStack stack r1
      in applyEffects [] r2)"

text \<open>
  The painting order in the words of the specification, as the list of painting groups
  of a stacking context: (1) background and borders of the root, (2) the negative
  z-index contexts, (3) the root's own content, (4) the non-positioned block-level
  nodes, (5) the non-positioned floats, (6) the non-positioned inline-level contexts and
  then the inline-level nodes, (7) the zero/auto z-index, transformed or opacity contexts,
  (8) the positive z-index contexts; nothing for an invisible root.
\<close>

definition nodeOrder :: "ElementPaint \<Rightarrow> call list" where
  "nodeOrder paint =
     (if isVisible paint then [BackgroundAndBorders (elemNo paint), Content (elemNo paint)] else [])"

fun paintingOrder :: "StackingContext \<Rightarrow> call list" where
  "paintingOrder (StackingContext el neg zero pos floats npil inl nonInl) =
     (if isVisible el
      then [BackgroundAndBorders (elemNo el)]
           @ concat (map paintingOrder neg)
           @ [Content (elemNo el)]
           @ concat (map nodeOrder nonInl)
           @ concat (map paintingOrder floats)
           @ concat (map paintingOrder npil)
           @ concat (map nodeOrder inl)
           @ concat (map paintingOrder zero)
           @ concat (map paintingOrder pos)
      else [])"

fun isPaintingGroup :: "call \<Rightarrow> bool" where
  "isPaintingGroup (BackgroundAndBorders _) = True"
| "isPaintingGroup (Content _) = True"
| "isPaintingGroup _ = False"

text \<open>
  The alpha stack mirrors the active effects: the base entry 1 followed by the opacity
  of every active opacity effect, oldest first.
\<close>

definition alphaMirrorsEffects :: "renderer \<Rightarrow> bool" where
  "alphaMirrorsEffects r \<longleftrightarrow>
     globalAlpha r = 1 # map opacity (filter isOpacityEffect (activeEffects r))"

text \<open>The painting groups among the calls made so far.\<close>

definition pg :: "renderer \<Rightarrow> call list" where
  "pg r = filter isPaintingGroup (calls r)"

section \<open>Concrete inputs\<close>

text \<open>Small inputs on which the theorems below are instantiated.\<close>

definition elem :: "nat \<Rightarrow> bool \<Rightarrow> ElementPaint" where
  "elem n v = \<lparr>elemNo = n, isVisible = v,
               getEffects = (\<lambda>target. if target = 4 then [OpacityEffect (1/2)] else [])\<rparr>"

definition leaf :: "nat \<Rightarrow> bool \<Rightarrow> StackingContext" where
  "leaf n v = StackingContext (elem n v) [] [] [] [] [] [] []"

definition page :: StackingContext where
  "page = StackingContext (elem 0 True)
            [leaf 1 True, leaf 2 True] [leaf 7 True] [leaf 8 True, leaf 9 False]
            [leaf 4 True] [leaf 5 True] [elem 6 True] [elem 3 True]"

definition halfway :: renderer where
  "halfway = \<lparr>calls = [Save, Save], nextObj = 0,
              activeEffects = [TransformEffect 1 2 (1, 0, 0, 1, 0, 0), OpacityEffect (1/2)],
              globalAlpha = [1, 1/2]\<rparr>"

definition topSide :: "Path list" where
  "topSide = [Vertex (Vector 0 0), Vertex (Vector 100 0), Vertex (Vector 98 2), Vertex (Vector 2 2)]"

text \<open>The doubles nearest to 4.9, 60.2, 0.9 and 5.4.\<close>

definition d4_9 :: rat where
  "d4_9 = 2758454771764429 / 562949953421312"

definition d60_2 :: rat where
  "d60_2 = 4236198399495373 / 70368744177664"

definition d0_9 :: rat where
  "d0_9 = 8106479329266893 / 9007199254740992"

definition d5_4 :: rat where
  "d5_4 = 3039929748475085 / 562949953421312"


definition fresh :: renderer where
  "fresh = \<lparr>calls = [], nextObj = 0, activeEffects = [], globalAlpha = [1]\<rparr>"

text \<open>
  A typeface that covers the characters below U+0080 only, with glyphs half the font
  size wide; a typeface that covers every character, with glyphs as wide as the font
  size and no width for the missing glyph 0; and an environment that splits a string into
  its characters and offers the second typeface as fallback.
\<close>

definition latin :: Typeface where
  "latin = \<lparr>tfName = 1,
             tfGlyphIDs = map (\<lambda>c. if (of_char c :: nat) < 128 then of_char c else 0),
             tfGlyphWidths = (\<lambda>px ids. map (\<lambda>id. px / 2) ids)\<rparr>"

definition symbols :: Typeface where
  "symbols = \<lparr>tfName = 2,
               tfGlyphIDs = map (\<lambda>c. Suc (of_char c)),
               tfGlyphWidths = (\<lambda>px ids. map (\<lambda>id. if id = 0 then 0 else px) ids)\<rparr>"

definition plainText :: TextEnv where
  "plainText = \<lparr>segmentGraphemes = map (\<lambda>c. [c]),
                 fallbackFontProvider = Some (\<lambda>letter. Some symbols),
                 scale = 1\<rparr>"

definition latin16 :: SkiaFont where
  "latin16 = \<lparr>fontObj = 0, fontTypeface = latin, fontSize = 16\<rparr>"

definition ink :: SkiaPaint where
  "ink = \<lparr>paintObj = 7, paintStyle = Fill, antiAlias = True, paintColor = None,
           strokeWidth = None, pathEffect = None, maskFilter = None, paintShader = None\<rparr>"

definition hi :: TextBounds where
  "hi = \<lparr>tb_text = ''Hi'', tb_bounds = \<lparr>b_left = 0, b_top = 0, b_width = 20, b_height = 10\<rparr>\<rparr>"

definition cafe :: TextBounds where
  "cafe = \<lparr>tb_text = [CHR ''a'', char_of (233 :: nat), CHR ''b''],
            tb_bounds = \<lparr>b_left = 0, b_top = 0, b_width = 30, b_height = 10\<rparr>\<rparr>"

definition shadowed :: TextStyles where
  "shadowed = \<lparr>st_color = 255, letterSpacing = 0,
                textShadow = [\<lparr>ts_color = 128, ts_offsetX = 1, ts_offsetY = 2, ts_blur = 4\<rparr>,
                              \<lparr>ts_color = 64, ts_offsetX = 3, ts_offsetY = 4, ts_blur = 2\<rparr>],
                textDecorationLine = [UNDERLINE], textDecorationColor = None,
                webkitTextStrokeWidth = 0, webkitTextStrokeColor = 0,
                paintOrder = [FILL, STROKE]\<rparr>"





definition a4 :: SkiaRenderOptions where
  "a4 = \<lparr>opt_scale = 1/2, opt_x = 0, opt_y = 0, opt_width = 595, opt_height = 842,
         backgroundColor = Some 4294967295\<rparr>"

section \<open>Verified properties\<close>

lemma ga_step_nonempty: "s \<noteq> [] \<Longrightarrow> ga_step s x \<noteq> []"
  by (cases x; cases s rule: rev_cases) (auto simp: ga_push_def ga_pop_def)

lemma ga_run_nonempty: "s \<noteq> [] \<Longrightarrow> ga_run os s \<noteq> []"
  unfolding ga_run_def
  by (induction os arbitrary: s) (simp_all add: ga_step_nonempty)


subsection \<open>Unwinding and applying effects\<close>

lemma calls_emit: "calls (emit c r) = calls r @ [c]"
  and activeEffects_emit: "activeEffects (emit c r) = activeEffects r"
  and globalAlpha_emit: "globalAlpha (emit c r) = globalAlpha r"
  and nextObj_emit: "nextObj (emit c r) = nextObj r"
  by (simp_all add: emit_def)

lemma popEffect_snoc:
  assumes "activeEffects r = es @ [e]"
  shows "activeEffects (popEffect r) = es"
    and "calls (popEffect r) = calls r @ [Restore]"
    and "nextObj (popEffect r) = nextObj r"
    and "globalAlpha (popEffect r) =
           (if isOpacityEffect e then fst (ga_pop (globalAlpha r)) else globalAlpha r)"
  using assms by (simp_all add: popEffect_def emit_def Let_def)

lemma popAll_Nil: "activeEffects r = [] \<Longrightarrow> popAll r = r"
  by (subst popAll.simps) simp

lemma popAll_snoc: "activeEffects r = es @ [e] \<Longrightarrow> popAll r = popAll (popEffect r)"
  by (subst popAll.simps) simp

lemma popAll_unfold:
  "popAll r = (popEffect ^^ length (activeEffects r)) r"
proof (induction "activeEffects r" arbitrary: r rule: rev_induct)
  case Nil
  then show ?case by (simp add: popAll_Nil)
next
  case (snoc e es)
  from snoc.hyps(2) have ae: "activeEffects r = es @ [e]" by simp
  then have es: "es = activeEffects (popEffect r)" by (simp add: popEffect_snoc)
  have "popAll (popEffect r) = (popEffect ^^ length es) (popEffect r)"
    using snoc.hyps(1)[OF es] es by simp
  then show ?case using popAll_snoc[OF ae] ae by (simp add: funpow_swap1)
qed

lemma popAll_activeEffects: "activeEffects (popAll r) = []"
proof (induction "activeEffects r" arbitrary: r rule: rev_induct)
  case Nil
  then show ?case by (simp add: popAll_Nil)
next
  case (snoc e es)
  from snoc.hyps(2) have ae: "activeEffects r = es @ [e]" by simp
  then have es: "es = activeEffects (popEffect r)" by (simp add: popEffect_snoc)
  show ?case using snoc.hyps(1)[OF es] popAll_snoc[OF ae] by simp
qed

lemma popAll_calls: "calls (popAll r) = calls r @ replicate (length (activeEffects r)) Restore"
proof (induction "activeEffects r" arbitrary: r rule: rev_induct)
  case Nil
  then show ?case by (simp add: popAll_Nil)
next
  case (snoc e es)
  from snoc.hyps(2) have ae: "activeEffects r = es @ [e]" by simp
  then have es: "es = activeEffects (popEffect r)" by (simp add: popEffect_snoc)
  have "calls (popAll (popEffect r)) = calls (popEffect r) @ replicate (length es) Restore"
    using snoc.hyps(1)[OF es] es by simp
  then show ?case using popAll_snoc[OF ae] ae popEffect_snoc(2)[OF ae]
    by (simp add: replicate_append_same)
qed

lemma popAll_nextObj: "nextObj (popAll r) = nextObj r"
proof (induction "activeEffects r" arbitrary: r rule: rev_induct)
  case Nil
  then show ?case by (simp add: popAll_Nil)
next
  case (snoc e es)
  from snoc.hyps(2) have ae: "activeEffects r = es @ [e]" by simp
  then have es: "es = activeEffects (popEffect r)" by (simp add: popEffect_snoc)
  show ?case using snoc.hyps(1)[OF es] popAll_snoc[OF ae] popEffect_snoc(3)[OF ae] by simp
qed

lemma popAll_globalAlpha:
  "globalAlpha (popAll r) =
     ((\<lambda>s. fst (ga_pop s)) ^^ length (filter isOpacityEffect (activeEffects r))) (globalAlpha r)"
proof (induction "activeEffects r" arbitrary: r rule: rev_induct)
  case Nil
  then show ?case by (simp add: popAll_Nil)
next
  case (snoc e es)
  from snoc.hyps(2) have ae: "activeEffects r = es @ [e]" by simp
  then have es: "es = activeEffects (popEffect r)" by (simp add: popEffect_snoc)
  have "globalAlpha (popAll (popEffect r)) =
     ((\<lambda>s. fst (ga_pop s)) ^^ length (filter isOpacityEffect es)) (globalAlpha (popEffect r))"
    using snoc.hyps(1)[OF es] es by simp
  then show ?case using popAll_snoc[OF ae] ae popEffect_snoc(4)[OF ae]
      funpow_swap1[of "\<lambda>s. fst (ga_pop s)" "length (filter isOpacityEffect es)" "globalAlpha r"]
    by simp
qed

lemma applyEffect_activeEffects: "activeEffects (applyEffect e r) = activeEffects r @ [e]"
  by (cases e) (simp_all add: applyEffect_def emit_def release_def createSkiaPath_def alloc_def Let_def)

lemma applyEffect_globalAlpha:
  "globalAlpha (applyEffect e r) =
     (if isOpacityEffect e then ga_push (opacity e) (globalAlpha r) else globalAlpha r)"
  by (cases e) (simp_all add: applyEffect_def emit_def release_def createSkiaPath_def alloc_def Let_def)

lemma applyEffect_calls:
  "\<exists>cs. calls (applyEffect e r) = calls r @ Save # cs \<and> filter isPaintingGroup cs = []"
  by (cases e) (simp_all add: applyEffect_def emit_def release_def createSkiaPath_def alloc_def Let_def split: prod.splits)

lemma foldl_applyEffect_activeEffects:
  "activeEffects (foldl (\<lambda>s e. applyEffect e s) u req) = activeEffects u @ req"
  by (induction req arbitrary: u) (simp_all add: applyEffect_activeEffects)

lemma applyEffects_activeEffects: "activeEffects (applyEffects req r) = req"
  by (simp add: applyEffects_def foldl_applyEffect_activeEffects popAll_activeEffects)

lemma alphaMirrors_applyEffect: "alphaMirrorsEffects r \<Longrightarrow> alphaMirrorsEffects (applyEffect e r)"
  by (cases e) (simp_all add: alphaMirrorsEffects_def applyEffect_activeEffects applyEffect_globalAlpha ga_push_def)

lemma alphaMirrors_foldl:
  "alphaMirrorsEffects u \<Longrightarrow> alphaMirrorsEffects (foldl (\<lambda>s e. applyEffect e s) u req)"
  by (induction req arbitrary: u) (simp_all add: alphaMirrors_applyEffect)

lemma alphaMirrors_popEffect:
  assumes "alphaMirrorsEffects r" shows "alphaMirrorsEffects (popEffect r)"
proof (cases "activeEffects r" rule: rev_cases)
  case Nil
  with assms show ?thesis by (simp add: alphaMirrorsEffects_def popEffect_def emit_def)
next
  case (snoc es e)
  with assms show ?thesis
    by (cases e) (simp_all add: alphaMirrorsEffects_def popEffect_snoc[OF snoc] ga_pop_def butlast_append)
qed

lemma alphaMirrors_popAll: "alphaMirrorsEffects r \<Longrightarrow> alphaMirrorsEffects (popAll r)"
proof (induction "activeEffects r" arbitrary: r rule: rev_induct)
  case Nil
  then show ?case by (simp add: popAll_Nil)
next
  case (snoc e es)
  from snoc.hyps(2) have ae: "activeEffects r = es @ [e]" by simp
  then have es: "es = activeEffects (popEffect r)" by (simp add: popEffect_snoc)
  show ?case using snoc.hyps(1)[OF es alphaMirrors_popEffect[OF snoc.prems]] popAll_snoc[OF ae] by simp
qed

lemma alphaMirrors_applyEffects: "alphaMirrorsEffects r \<Longrightarrow> alphaMirrorsEffects (applyEffects req r)"
  by (simp add: applyEffects_def alphaMirrors_foldl alphaMirrors_popAll)

lemma alphaMirrors_emit: "alphaMirrorsEffects (emit c r) = alphaMirrorsEffects r"
  by (simp add: alphaMirrorsEffects_def emit_def)

lemma alphaMirrors_renderNode: "alphaMirrorsEffects r \<Longrightarrow> alphaMirrorsEffects (renderNode p r)"
  by (simp add: renderNode_def renderNodeContent_def renderNodeBackgroundAndBorders_def
      alphaMirrors_emit alphaMirrors_applyEffects)

lemma alphaMirrors_foldl_gen:
  assumes "\<And>c s. c \<in> set cs \<Longrightarrow> alphaMirrorsEffects s \<Longrightarrow> alphaMirrorsEffects (f c s)"
    and "alphaMirrorsEffects r"
  shows "alphaMirrorsEffects (foldl (\<lambda>s c. f c s) r cs)"
  using assms by (induction cs arbitrary: r) simp_all


lemma alphaMirrors_renderStack:
  "alphaMirrorsEffects r \<Longrightarrow> alphaMirrorsEffects (renderStack st r)"
proof (induction st arbitrary: r)
  case (StackingContext el neg zero pos floats npil inl nonInl)
  have n: "\<And>cs s. alphaMirrorsEffects s \<Longrightarrow> alphaMirrorsEffects (foldl (\<lambda>s c. renderNode c s) s cs)"
    by (rule alphaMirrors_foldl_gen) (simp_all add: alphaMirrors_renderNode)
  have k: "\<And>cs s. set cs \<subseteq> set neg \<union> set zero \<union> set pos \<union> set floats \<union> set npil
            \<Longrightarrow> alphaMirrorsEffects s \<Longrightarrow> alphaMirrorsEffects (foldl (\<lambda>s c. renderStack c s) s cs)"
    by (rule alphaMirrors_foldl_gen) (use StackingContext.IH in auto)
  have ks: "\<And>s. alphaMirrorsEffects s \<Longrightarrow> alphaMirrorsEffects (foldl (\<lambda>s c. renderStack c s) s neg)"
    "\<And>s. alphaMirrorsEffects s \<Longrightarrow> alphaMirrorsEffects (foldl (\<lambda>s c. renderStack c s) s zero)"
    "\<And>s. alphaMirrorsEffects s \<Longrightarrow> alphaMirrorsEffects (foldl (\<lambda>s c. renderStack c s) s pos)"
    "\<And>s. alphaMirrorsEffects s \<Longrightarrow> alphaMirrorsEffects (foldl (\<lambda>s c. renderStack c s) s floats)"
    "\<And>s. alphaMirrorsEffects s \<Longrightarrow> alphaMirrorsEffects (foldl (\<lambda>s c. renderStack c s) s npil)"
    by (rule k, blast, assumption)+
  show ?case using StackingContext.prems
    by (simp add: Let_def renderNodeContent_def renderNodeBackgroundAndBorders_def
        alphaMirrors_emit alphaMirrors_applyEffects n ks)
qed

lemma pg_emit: "pg (emit c r) = pg r @ (if isPaintingGroup c then [c] else [])"
  by (simp add: pg_def emit_def)

lemma pg_applyEffect: "pg (applyEffect e r) = pg r"
  using applyEffect_calls[of e r] by (auto simp: pg_def)

lemma pg_popAll: "pg (popAll r) = pg r"
  by (simp add: pg_def popAll_calls)

lemma pg_applyEffects: "pg (applyEffects req r) = pg r"
proof -
  have "\<And>u. pg (foldl (\<lambda>s e. applyEffect e s) u req) = pg u"
    by (induction req) (simp_all add: pg_applyEffect)
  then show ?thesis by (simp add: applyEffects_def pg_popAll)
qed

lemma pg_renderNode: "pg (renderNode p r) = pg r @ nodeOrder p"
  by (simp add: renderNode_def renderNodeContent_def renderNodeBackgroundAndBorders_def
      pg_emit pg_applyEffects nodeOrder_def)

lemma pg_foldl:
  assumes "\<And>c s. c \<in> set cs \<Longrightarrow> pg (f c s) = pg s @ g c"
  shows "pg (foldl (\<lambda>s c. f c s) r cs) = pg r @ concat (map g cs)"
  using assms by (induction cs arbitrary: r) simp_all

lemma pg_renderStack: "pg (renderStack st r) = pg r @ paintingOrder st"
proof (induction st arbitrary: r)
  case (StackingContext el neg zero pos floats npil inl nonInl)
  have n: "\<And>cs s. pg (foldl (\<lambda>s c. renderNode c s) s cs) = pg s @ concat (map nodeOrder cs)"
    by (rule pg_foldl) (simp add: pg_renderNode)
  have k: "\<And>cs s. set cs \<subseteq> set neg \<union> set zero \<union> set pos \<union> set floats \<union> set npil
            \<Longrightarrow> pg (foldl (\<lambda>s c. renderStack c s) s cs) = pg s @ concat (map paintingOrder cs)"
    by (rule pg_foldl) (use StackingContext.IH in auto)
  have ks: "\<And>s. pg (foldl (\<lambda>s c. renderStack c s) s neg) = pg s @ concat (map paintingOrder neg)"
    "\<And>s. pg (foldl (\<lambda>s c. renderStack c s) s zero) = pg s @ concat (map paintingOrder zero)"
    "\<And>s. pg (foldl (\<lambda>s c. renderStack c s) s pos) = pg s @ concat (map paintingOrder pos)"
    "\<And>s. pg (foldl (\<lambda>s c. renderStack c s) s floats) = pg s @ concat (map paintingOrder floats)"
    "\<And>s. pg (foldl (\<lambda>s c. renderStack c s) s npil) = pg s @ concat (map paintingOrder npil)"
    by (rule k, blast)+
  show ?case
    by (simp add: Let_def renderNodeContent_def renderNodeBackgroundAndBorders_def
        pg_emit pg_applyEffects n ks)
qed


lemma alphaMirrors_new: "alphaMirrorsEffects (SkiaRenderer_new options)"
  by (simp add: alphaMirrorsEffects_def SkiaRenderer_new_def GlobalAlpha_new_def)

lemma alphaMirrors_render:
  "alphaMirrorsEffects r \<Longrightarrow> alphaMirrorsEffects (render options stack r)"
proof -
  assume a: "alphaMirrorsEffects r"
  have "alphaMirrorsEffects
          (case backgroundColor options of
             None \<Rightarrow> r
           | Some c \<Rightarrow>
               if c = 0 then r
               else (let (bgPaint, r') = createPaint Fill r;
                         bgPaint' = bgPaint\<lparr>paintColor := Some (parseColorWithAlpha c r')\<rparr>
                     in release KPaint (paintObj bgPaint')
                          (emit (DrawRect [opt_x options, opt_y options,
                                           opt_x options + opt_width options,
                                           opt_y options + opt_height options] bgPaint') r')))"
    using a
    by (auto simp: alphaMirrorsEffects_def createPaint_def alloc_def release_def emit_def Let_def
        split: option.splits)
  then show ?thesis
    by (simp add: render_def Let_def alphaMirrors_applyEffects alphaMirrors_renderStack)
qed

lemma flush_under_mirror:
  assumes "alphaMirrorsEffects r"
  shows "activeEffects (applyEffects [] r) = []" and "globalAlpha (applyEffects [] r) = [1]"
proof -
  show e: "activeEffects (applyEffects [] r) = []" by (simp add: applyEffects_activeEffects)
  have "alphaMirrorsEffects (applyEffects [] r)" using assms by (rule alphaMirrors_applyEffects)
  with e show "globalAlpha (applyEffects [] r) = [1]" by (simp add: alphaMirrorsEffects_def)
qed

section \<open>The claims\<close>

text \<open>
  C9.  The global-alpha stack starts as the single entry 1 and is non-empty after every
  sequence of pushes and pops, so the value read for a paint colour is always the top
  entry of the stack; \<open>pop\<close> on a stack of more than one entry removes and returns the
  top, and \<open>pop\<close> on a single-entry stack returns 1 and leaves the entry in place.
\<close>

theorem global_alpha_never_empty:
  "GlobalAlpha_new = [1]
   \<and> ga_run os GlobalAlpha_new \<noteq> []
   \<and> ga_value (ga_run os GlobalAlpha_new) = last (ga_run os GlobalAlpha_new)
   \<and> (length s > 1 \<longrightarrow> ga_pop s = (butlast s, last s))
   \<and> ga_pop [v] = ([v], 1)"
proof -
  have n: "ga_run os GlobalAlpha_new \<noteq> []"
    by (rule ga_run_nonempty) (simp add: GlobalAlpha_new_def)
  then show ?thesis
    by (simp add: GlobalAlpha_new_def ga_value_def ga_pop_def)
qed

theorem global_alpha_never_empty_witness:
  "ga_run [Push (1/2), Pop, Pop, Pop] GlobalAlpha_new \<noteq> []
   \<and> ga_value (ga_run [Push (1/2), Pop, Pop, Pop] GlobalAlpha_new) = 1
   \<and> length [1, 1/2 :: rat] > 1
   \<and> ga_pop [1, 1/2] = ([1], 1/2)
   \<and> ga_pop [1] = ([1], 1)"
  using global_alpha_never_empty [of "[Push (1/2), Pop, Pop, Pop]" "[1, 1/2]" 1]
  by (simp add: ga_run_def ga_push_def ga_pop_def GlobalAlpha_new_def)

text \<open>
  C2.  \<open>applyEffects(requested)\<close> first pops once per active effect, each pop removing
  the most recently applied effect, restoring the canvas and popping the alpha stack when
  that effect is an opacity effect; it then applies the requested effects first to last.
  Afterwards the active effects are exactly the requested ones, so their number is
  \<open>requested.length\<close>.  Whenever the alpha stack mirrors the active effects,
  \<open>applyEffects([])\<close> leaves no active effect and the alpha stack \<open>[1]\<close> with effective
  alpha 1; this is the state in which \<open>render\<close> on a new renderer ends, and a further
  \<open>applyEffects([])\<close> keeps it.
\<close>

theorem applyEffects_unwinds_then_applies:
  "applyEffects requested r =
     foldl (\<lambda>s effect. applyEffect effect s) ((popEffect ^^ length (activeEffects r)) r) requested
   \<and> (\<forall>es e. activeEffects r = es @ [e] \<longrightarrow>
         activeEffects (popEffect r) = es
         \<and> calls (popEffect r) = calls r @ [Restore]
         \<and> globalAlpha (popEffect r) =
             (if isOpacityEffect e then fst (ga_pop (globalAlpha r)) else globalAlpha r))
   \<and> activeEffects (applyEffects requested r) = requested
   \<and> length (activeEffects (applyEffects requested r)) = length requested
   \<and> (alphaMirrorsEffects r \<longrightarrow>
         activeEffects (applyEffects [] r) = []
         \<and> globalAlpha (applyEffects [] r) = [1]
         \<and> ga_value (globalAlpha (applyEffects [] r)) = 1)
   \<and> activeEffects (render options stack (SkiaRenderer_new options)) = []
   \<and> globalAlpha (render options stack (SkiaRenderer_new options)) = [1]
   \<and> ga_value (globalAlpha (render options stack (SkiaRenderer_new options))) = 1
   \<and> activeEffects (applyEffects [] (render options stack (SkiaRenderer_new options))) = []
   \<and> globalAlpha (applyEffects [] (render options stack (SkiaRenderer_new options))) = [1]"
proof -
  have a: "applyEffects requested r =
     foldl (\<lambda>s effect. applyEffect effect s) ((popEffect ^^ length (activeEffects r)) r) requested"
    by (simp add: applyEffects_def popAll_unfold)
  have b: "\<forall>es e. activeEffects r = es @ [e] \<longrightarrow>
         activeEffects (popEffect r) = es
         \<and> calls (popEffect r) = calls r @ [Restore]
         \<and> globalAlpha (popEffect r) =
             (if isOpacityEffect e then fst (ga_pop (globalAlpha r)) else globalAlpha r)"
    using popEffect_snoc by blast
  have c: "activeEffects (applyEffects requested r) = requested"
    by (rule applyEffects_activeEffects)
  have d: "alphaMirrorsEffects r \<longrightarrow>
         activeEffects (applyEffects [] r) = []
         \<and> globalAlpha (applyEffects [] r) = [1]
         \<and> ga_value (globalAlpha (applyEffects [] r)) = 1"
    by (simp add: flush_under_mirror ga_value_def)
  have m: "alphaMirrorsEffects (render options stack (SkiaRenderer_new options))"
    by (rule alphaMirrors_render) (rule alphaMirrors_new)
  have e: "activeEffects (render options stack (SkiaRenderer_new options)) = []"
    by (simp add: render_def Let_def applyEffects_activeEffects)
  with m have f: "globalAlpha (render options stack (SkiaRenderer_new options)) = [1]"
    by (simp add: alphaMirrorsEffects_def)
  have g: "activeEffects (applyEffects [] (render options stack (SkiaRenderer_new options))) = []"
    "globalAlpha (applyEffects [] (render options stack (SkiaRenderer_new options))) = [1]"
    using flush_under_mirror[OF m] by simp_all
  from a b c d e f g show ?thesis by (simp add: ga_value_def)
qed

theorem applyEffects_unwinds_then_applies_witness:
  "activeEffects halfway = [TransformEffect 1 2 (1, 0, 0, 1, 0, 0)] @ [OpacityEffect (1/2)]
   \<and> activeEffects (popEffect halfway) = [TransformEffect 1 2 (1, 0, 0, 1, 0, 0)]
   \<and> calls (popEffect halfway) = [Save, Save, Restore]
   \<and> globalAlpha (popEffect halfway) = [1]
   \<and> activeEffects (applyEffects [OpacityEffect (1/4), OpacityEffect (1/3)] halfway)
       = [OpacityEffect (1/4), OpacityEffect (1/3)]
   \<and> alphaMirrorsEffects halfway
   \<and> activeEffects (applyEffects [] halfway) = []
   \<and> globalAlpha (applyEffects [] halfway) = [1]
   \<and> globalAlpha (render a4 page (SkiaRenderer_new a4)) = [1]"
proof -
  have h: "activeEffects halfway = [TransformEffect 1 2 (1, 0, 0, 1, 0, 0)] @ [OpacityEffect (1/2)]"
    by (simp add: halfway_def)
  have m: "alphaMirrorsEffects halfway"
    by (simp add: alphaMirrorsEffects_def halfway_def)
  have g: "fst (ga_pop (globalAlpha halfway)) = [1]"
    by (simp add: halfway_def ga_pop_def)
  have c: "calls halfway = [Save, Save]"
    by (simp add: halfway_def)
  note t = applyEffects_unwinds_then_applies
      [of "[OpacityEffect (1/4), OpacityEffect (1/3)]" halfway a4 page]
  from h m g c t [THEN conjunct2] show ?thesis by simp
qed

text \<open>
  C1.  The painting groups that \<open>renderStack\<close> adds to the trace are exactly those of
  the eight-step painting order, each bucket in its stored order (the tree builder stores
  the negative and the positive z-index buckets in ascending order); for an invisible
  root \<open>renderStack\<close> changes nothing.
\<close>

theorem renderStack_painting_order:
  "filter isPaintingGroup (calls (renderStack stack r))
     = filter isPaintingGroup (calls r) @ paintingOrder stack
   \<and> (\<not> isVisible (element stack) \<longrightarrow> renderStack stack r = r)"
proof -
  have "\<not> isVisible (element stack) \<longrightarrow> renderStack stack r = r"
    by (cases stack) simp
  then show ?thesis using pg_renderStack[of stack r] by (simp add: pg_def)
qed

theorem renderStack_painting_order_witness:
  "filter isPaintingGroup (calls (renderStack page (SkiaRenderer_new a4)))
     = [BackgroundAndBorders 0,
        BackgroundAndBorders 1, Content 1, BackgroundAndBorders 2, Content 2,
        Content 0,
        BackgroundAndBorders 3, Content 3,
        BackgroundAndBorders 4, Content 4,
        BackgroundAndBorders 5, Content 5,
        BackgroundAndBorders 6, Content 6,
        BackgroundAndBorders 7, Content 7,
        BackgroundAndBorders 8, Content 8]
   \<and> \<not> isVisible (element (leaf 9 False))
   \<and> renderStack (leaf 9 False) halfway = halfway"
proof -
  have v: "\<not> isVisible (element (leaf 9 False))"
    by (simp add: leaf_def elem_def)
  from v renderStack_painting_order [of page "SkiaRenderer_new a4"]
    renderStack_painting_order [of "leaf 9 False" halfway]
  show ?thesis
    by (simp add: page_def leaf_def elem_def nodeOrder_def SkiaRenderer_new_def)
qed

subsection \<open>Rounding\<close>

lemma powInt_eq: "powInt b n = b ^ nat n"
proof (induction b n rule: powInt.induct)
  case (1 b n)
  show ?case
  proof (cases "n \<le> 0")
    case True
    then show ?thesis by (subst powInt.simps) simp
  next
    case False
    then have ih: "powInt b (n div 2) = b ^ nat (n div 2)" using 1 by simp
    have nn: "nat n = (if even n then 0 else 1) + 2 * nat (n div 2)"
    proof (cases "even n")
      case True
      then obtain k where "n = 2 * k" by (elim evenE)
      with False show ?thesis by (simp add: nat_mult_distrib)
    next
      case False
      then obtain k where "n = 2 * k + 1" by (elim oddE)
      with \<open>\<not> n \<le> 0\<close> show ?thesis by (simp add: nat_add_distrib nat_mult_distrib)
    qed
    have "b ^ nat n = (if even n then 1 else b) * (b ^ nat (n div 2) * b ^ nat (n div 2))"
      by (subst nn) (simp add: power_add mult_2)
    then show ?thesis using False by (subst powInt.simps) (simp add: ih sq_def)
  qed
qed

lemma pow2_nonpos: "e \<le> 0 \<Longrightarrow> pow2 e = 1 / 2 ^ nat (- e)"
  by (cases "e = 0") (simp_all add: pow2_def powInt_eq)

lemma bitLength_pos: "0 < n \<Longrightarrow> 1 \<le> bitLength n"
proof -
  assume "0 < n"
  moreover have "0 \<le> bitLength m" for m
    by (induction m rule: bitLength.induct) (subst bitLength.simps, simp)
  ultimately show ?thesis by (subst bitLength.simps) simp
qed

lemma bitLength_le: "n < 2 ^ m \<Longrightarrow> bitLength n \<le> int m"
proof (induction m arbitrary: n)
  case 0
  then show ?case by (subst bitLength.simps) simp
next
  case (Suc m)
  have "n div 2 < 2 ^ m" using Suc.prems by simp
  from Suc.IH[OF this] show ?case by (subst bitLength.simps) simp
qed

lemma roundHalfEven_of_int: "roundHalfEven (of_int m) = m"
  by (simp add: roundHalfEven_def)

text \<open>Integers below \<open>2^53\<close> in absolute value are doubles: rounding leaves them alone.\<close>

lemma fl_of_int_pos:
  assumes "0 < n" "n < 2 ^ 53"
  shows "fl (of_int n) = Some (of_int n)"
proof -
  define k where "k = bitLength n - 1"
  have k: "0 \<le> k" "k \<le> 52"
    using bitLength_pos[OF assms(1)] bitLength_le[OF assms(2)] by (simp_all add: k_def)
  have b: "binade (of_int n) = k" using assms(1) by (simp add: binade_def k_def)
  have p: "pow2 (k - 52) = 1 / of_int (2 ^ nat (52 - k))"
    using k pow2_nonpos[of "k - 52"] by simp
  have "of_int n / pow2 (k - 52) = (of_int (n * 2 ^ nat (52 - k)) :: rat)"
    by (simp add: p)
  then have r: "roundHalfEven (of_int n / pow2 (k - 52)) = n * 2 ^ nat (52 - k)"
    by (simp only: roundHalfEven_of_int)
  have "roundAt (k - 52) (of_int n) = of_int n"
    unfolding roundAt_def r by (simp add: p)
  moreover have "max (k - 52) (- 1074) = k - 52" using k by simp
  ultimately have "flPos (of_int n) = Some (of_int n)"
    using k by (simp add: flPos_def b Let_def)
  then show ?thesis using assms(1) by (simp add: fl_def)
qed

lemma fl_of_int:
  assumes "\<bar>n\<bar> < 2 ^ 53"
  shows "fl (of_int n) = Some (of_int n)"
proof (cases "n = 0")
  case True
  then show ?thesis by (simp add: fl_def)
next
  case False
  show ?thesis
  proof (cases "0 < n")
    case True
    with assms show ?thesis by (simp add: fl_of_int_pos)
  next
    case False
    with \<open>n \<noteq> 0\<close> assms have "0 < - n" "- n < 2 ^ 53" by simp_all
    from fl_of_int_pos[OF this] have "flPos (of_int (- n)) = Some (of_int (- n))"
      using \<open>0 < - n\<close> by (simp add: fl_def)
    with False \<open>n \<noteq> 0\<close> show ?thesis by (simp add: fl_def)
  qed
qed


text \<open>The doubles that the literals 4.9, 60.2, 0.9, 5.4 and 1.1 denote.\<close>

lemma literal_doubles:
  "fl (49 / 10) = Some d4_9" "fl (602 / 10) = Some d60_2"
  "fl (9 / 10) = Some d0_9" "fl (54 / 10) = Some d5_4"
  "fl (11 / 10) = Some (2476979795053773 / 2251799813685248)"
  by (simp_all add: d4_9_def d60_2_def d0_9_def d5_4_def) code_simp+

subsection \<open>Dash balancing\<close>

lemma baseDashSpace_int:
  assumes "0 \<le> n" "n < 2 ^ 51"
  shows "baseDashSpace DASHED (of_int n)
     = Some (if n < 3 then (of_int (n * 3), of_int (n * 2)) else (of_int (n * 2), of_int n))"
proof -
  have "\<bar>n * 3\<bar> < 2 ^ 53" "\<bar>n * 2\<bar> < 2 ^ 53" using assms by simp_all
  with fl_of_int[of "n * 3"] fl_of_int[of "n * 2"]
  have "fl (of_int n * 3) = Some (of_int n * 3)" "fl (of_int n * 2) = Some (of_int n * 2)"
    by simp_all
  then show ?thesis
    by (simp add: baseDashSpace_def jsMul_def Let_def)
qed

lemma dashed_2_on_100: "dashPattern DASHED 2 100 = Some (6, 2501999792983609 / 562949953421312)"
  by code_simp

lemma balance_long:
  assumes "jsMul dash 2 = Some twice" "jsAdd twice space = Some limit" "twice < len" "limit < len"
    and "numberOfDashes len dash space = Some n"
    and "minSpace len dash n = Some mn" "maxSpace len dash n = Some mx"
    and "jsSub space mn = Some a" "jsSub space mx = Some b"
  shows "balance len dash space = Some (dash, if mx \<le> 0 \<or> \<bar>a\<bar> < \<bar>b\<bar> then mn else mx)"
  using assms by (simp add: balance_def)

text \<open>
  C4, as stated, fails: for a dashed border of width 2 the base dash length is 6, not
  \<open>2 \<times> 2\<close>, the base space length is 4, not 2, and on a side of length 100 the balanced
  pattern is dash 6 and space 4.444444444444445, the double nearest to 40/9.
\<close>

theorem base_dash_not_twice_width:
  "map_option fst (baseDashSpace DASHED 2) = Some 6
   \<and> map_option fst (baseDashSpace DASHED 2) \<noteq> Some (2 * 2)
   \<and> map_option snd (baseDashSpace DASHED 2) = Some 4
   \<and> map_option snd (baseDashSpace DASHED 2) \<noteq> Some 2
   \<and> dashPattern DASHED 2 100 = Some (6, 2501999792983609 / 562949953421312)
   \<and> fl (40 / 9) = Some (2501999792983609 / 562949953421312)"
  by code_simp

text \<open>
  C4, amended.  For stroke width \<open>w\<close> the base dash length of a dashed side is \<open>3w\<close> when
  \<open>w < 3\<close> and \<open>2w\<close> otherwise, and its base space length is \<open>2w\<close> when \<open>w < 3\<close> and
  \<open>w\<close> otherwise, the products being rounded to doubles (for a whole number of pixels
  they are exact); for a dotted side both are \<open>w\<close>.  A 2px dashed border on a side of
  length 100 yields dash 6 and, after balancing, the space 4.444444444444445, which is
  40/9 rounded to a double.
\<close>

theorem base_dash_space:
  "baseDashSpace DASHED w
     = (if w < 3 then do { d \<leftarrow> fl (w * 3); s \<leftarrow> fl (w * 2); Some (d, s) }
        else do { d \<leftarrow> fl (w * 2); Some (d, w) })
   \<and> baseDashSpace DOTTED w = Some (w, w)
   \<and> (0 \<le> n \<and> n < 2 ^ 51 \<longrightarrow>
        baseDashSpace DASHED (of_int n)
          = Some (if n < 3 then (of_int (n * 3), of_int (n * 2)) else (of_int (n * 2), of_int n)))
   \<and> dashPattern DASHED 2 100 = Some (6, 2501999792983609 / 562949953421312)
   \<and> fl (40 / 9) = Some (2501999792983609 / 562949953421312)"
proof -
  have a: "baseDashSpace DASHED w
     = (if w < 3 then do { d \<leftarrow> fl (w * 3); s \<leftarrow> fl (w * 2); Some (d, s) }
        else do { d \<leftarrow> fl (w * 2); Some (d, w) })"
    by (simp add: baseDashSpace_def jsMul_def Let_def)
  have b: "baseDashSpace DOTTED w = Some (w, w)"
    by (simp add: baseDashSpace_def Let_def)
  have c: "0 \<le> n \<and> n < 2 ^ 51 \<longrightarrow>
        baseDashSpace DASHED (of_int n)
          = Some (if n < 3 then (of_int (n * 3), of_int (n * 2)) else (of_int (n * 2), of_int n))"
    using baseDashSpace_int[of n] by blast
  have d: "fl (40 / 9) = Some (2501999792983609 / 562949953421312)"
    by code_simp
  show ?thesis by (rule conjI [OF a conjI [OF b conjI [OF c conjI [OF dashed_2_on_100 d]]]])
qed

theorem base_dash_space_witness:
  "(0::int) \<le> 2 \<and> (2::int) < 2 ^ 51
   \<and> baseDashSpace DASHED 2 = Some (6, 4)
   \<and> baseDashSpace DOTTED 2 = Some (2, 2)
   \<and> (0::int) \<le> 5 \<and> (5::int) < 2 ^ 51
   \<and> baseDashSpace DASHED 5 = Some (10, 5)"
proof -
  have h2: "(0::int) \<le> 2 \<and> (2::int) < 2 ^ 51" by simp
  have h5: "(0::int) \<le> 5 \<and> (5::int) < 2 ^ 51" by simp
  note t2 = base_dash_space [of 2 2, THEN conjunct2, THEN conjunct2, THEN conjunct1, THEN mp, OF h2]
  note t5 = base_dash_space [of 2 5, THEN conjunct2, THEN conjunct2, THEN conjunct1, THEN mp, OF h5]
  note u = base_dash_space [of 2 2, THEN conjunct2, THEN conjunct1]
  from t2 t5 u show ?thesis by simp
qed

text \<open>
  C5, as stated, fails twice.  The balancing changes a dotted pattern too: a dotted side
  of width 2 and length 100 gets space 1.92 instead of its base space 2.  And a tie goes
  to \<open>maxSpace\<close>: for a dashed side of width 5 and length 46 the base lengths are 10 and
  5, there are 3 dashes, both candidates are at distance 3 from the base space, and the
  result is \<open>maxSpace = 2\<close>, not \<open>minSpace = 8\<close>.  All numbers of the second example are
  whole, so no operation rounds.
\<close>

theorem balancing_dotted_and_tie:
  "baseDashSpace DOTTED 2 = Some (2, 2)
   \<and> dashPattern DOTTED 2 100 = Some (2, 1080863910568919 / 562949953421312)
   \<and> fl (48 / 25) = Some (1080863910568919 / 562949953421312)
   \<and> baseDashSpace DASHED 5 = Some (10, 5)
   \<and> jsMul 10 2 = Some 20 \<and> jsAdd 20 5 = Some 25 \<and> (25::rat) < 46
   \<and> numberOfDashes 46 10 5 = Some 3
   \<and> minSpace 46 10 3 = Some 8 \<and> maxSpace 46 10 3 = Some 2
   \<and> jsSub 5 8 = Some (- 3) \<and> jsSub 5 2 = Some 3
   \<and> dashPattern DASHED 5 46 = Some (10, 2)"
  by code_simp

text \<open>
  C5, amended.  The balancing rule is applied to the base lengths of every style, so of
  dashed and dotted sides alike.  \<open>numberOfDashes\<close>, \<open>minSpace\<close> and \<open>maxSpace\<close> are
  the quotients of the claim with every operation rounded to a double.  In the long-side
  branch (length greater than \<open>2 \<times> dash\<close> and than \<open>2 \<times> dash + space\<close>, all values
  finite) the dash length is kept and the space is \<open>minSpace\<close> when \<open>maxSpace\<close> is not
  positive or \<open>minSpace\<close> is strictly closer to the base space than \<open>maxSpace\<close>; in
  every other case, so also on a tie, it is \<open>maxSpace\<close>.
\<close>

theorem balance_long_side:
  "dashPattern style width len
      = do { (dash, space) \<leftarrow> baseDashSpace style width; balance len dash space }
   \<and> dashPattern DOTTED width len = balance len width width
   \<and> numberOfDashes len dash space
      = do { a \<leftarrow> fl (len + space); b \<leftarrow> fl (dash + space);
             q \<leftarrow> (if b = 0 then None else fl (a / b)); Some (of_int \<lfloor>q\<rfloor>) }
   \<and> minSpace len dash n
      = do { p \<leftarrow> fl (n * dash); a \<leftarrow> fl (len - p); b \<leftarrow> fl (n - 1);
             if b = 0 then None else fl (a / b) }
   \<and> maxSpace len dash n
      = do { m \<leftarrow> fl (n + 1); p \<leftarrow> fl (m * dash); a \<leftarrow> fl (len - p);
             if n = 0 then None else fl (a / n) }
   \<and> (fl (dash * 2) = Some twice \<and> fl (twice + space) = Some limit \<and> twice < len \<and> limit < len
        \<and> numberOfDashes len dash space = Some n
        \<and> minSpace len dash n = Some mn \<and> maxSpace len dash n = Some mx
        \<and> fl (space - mn) = Some a \<and> fl (space - mx) = Some b
      \<longrightarrow> balance len dash space
            = Some (dash, if mx \<le> 0 \<or> \<bar>a\<bar> < \<bar>b\<bar> then mn else mx))"
proof -
  have a: "dashPattern style width len
      = do { (dash, space) \<leftarrow> baseDashSpace style width; balance len dash space }"
    by (simp add: dashPattern_def)
  have b: "dashPattern DOTTED width len = balance len width width"
    by (simp add: dashPattern_def baseDashSpace_def Let_def)
  have c: "numberOfDashes len dash space
      = do { a \<leftarrow> fl (len + space); b \<leftarrow> fl (dash + space);
             q \<leftarrow> (if b = 0 then None else fl (a / b)); Some (of_int \<lfloor>q\<rfloor>) }"
    by (simp add: numberOfDashes_def jsAdd_def jsDiv_def)
  have d: "minSpace len dash n
      = do { p \<leftarrow> fl (n * dash); a \<leftarrow> fl (len - p); b \<leftarrow> fl (n - 1);
             if b = 0 then None else fl (a / b) }"
    by (simp add: minSpace_def jsMul_def jsSub_def jsDiv_def)
  have e: "maxSpace len dash n
      = do { m \<leftarrow> fl (n + 1); p \<leftarrow> fl (m * dash); a \<leftarrow> fl (len - p);
             if n = 0 then None else fl (a / n) }"
    by (simp add: maxSpace_def jsAdd_def jsMul_def jsSub_def jsDiv_def)
  have f: "fl (dash * 2) = Some twice \<and> fl (twice + space) = Some limit \<and> twice < len \<and> limit < len
        \<and> numberOfDashes len dash space = Some n
        \<and> minSpace len dash n = Some mn \<and> maxSpace len dash n = Some mx
        \<and> fl (space - mn) = Some a \<and> fl (space - mx) = Some b
      \<longrightarrow> balance len dash space
            = Some (dash, if mx \<le> 0 \<or> \<bar>a\<bar> < \<bar>b\<bar> then mn else mx)"
    using balance_long[of dash twice space limit len n mn mx a b]
    by (simp add: jsMul_def jsAdd_def jsSub_def)
  show ?thesis by (rule conjI [OF a conjI [OF b conjI [OF c conjI [OF d conjI [OF e f]]]]])
qed

text \<open>
  The amended rule at a dashed side of width 4.9 and length 60.2 (as doubles): base
  lengths 9.8 and 4.9, 4 dashes, \<open>minSpace = 7\<close>,
  \<open>maxSpace = 2.8000000000000007\<close>, both at the rounded distance 2.0999999999999996
  from the base space, and the result is \<open>maxSpace\<close>.
\<close>

theorem balance_long_side_witness:
  "baseDashSpace DASHED d4_9 = Some (2 * d4_9, d4_9)
   \<and> fl (2 * d4_9 * 2) = Some (4 * d4_9)
   \<and> fl (4 * d4_9 + d4_9) = Some (49 / 2)
   \<and> 4 * d4_9 < d60_2 \<and> 49 / 2 < d60_2
   \<and> numberOfDashes d60_2 (2 * d4_9) d4_9 = Some 4
   \<and> minSpace d60_2 (2 * d4_9) 4 = Some 7
   \<and> maxSpace d60_2 (2 * d4_9) 4 = Some (788129934789837 / 281474976710656)
   \<and> fl (d4_9 - 7) = Some (- (1182194902184755 / 562949953421312))
   \<and> fl (d4_9 - 788129934789837 / 281474976710656) = Some (1182194902184755 / 562949953421312)
   \<and> balance d60_2 (2 * d4_9) d4_9 = Some (2 * d4_9, 788129934789837 / 281474976710656)
   \<and> dashPattern DASHED d4_9 d60_2 = Some (2 * d4_9, 788129934789837 / 281474976710656)
   \<and> dashPattern DASHED d0_9 d5_4 = Some (3039929748475085 / 1125899906842624, 2 * d0_9)"
proof -
  have h: "fl (2 * d4_9 * 2) = Some (4 * d4_9)
   \<and> fl (4 * d4_9 + d4_9) = Some (49 / 2)
   \<and> 4 * d4_9 < d60_2 \<and> 49 / 2 < d60_2
   \<and> numberOfDashes d60_2 (2 * d4_9) d4_9 = Some 4
   \<and> minSpace d60_2 (2 * d4_9) 4 = Some 7
   \<and> maxSpace d60_2 (2 * d4_9) 4 = Some (788129934789837 / 281474976710656)
   \<and> fl (d4_9 - 7) = Some (- (1182194902184755 / 562949953421312))
   \<and> fl (d4_9 - 788129934789837 / 281474976710656) = Some (1182194902184755 / 562949953421312)"
    by code_simp
  have g: "baseDashSpace DASHED d4_9 = Some (2 * d4_9, d4_9)"
    "dashPattern DASHED d0_9 d5_4 = Some (3039929748475085 / 1125899906842624, 2 * d0_9)"
    by code_simp+
  note t = balance_long_side [of DASHED d4_9 d60_2 "2 * d4_9" d4_9 4 "4 * d4_9" "49 / 2" 7
      "788129934789837 / 281474976710656" "- (1182194902184755 / 562949953421312)"
      "1182194902184755 / 562949953421312"]
  note t1 = t [THEN conjunct1]
  note t6 = t [THEN conjunct2, THEN conjunct2, THEN conjunct2, THEN conjunct2, THEN conjunct2,
      THEN mp, OF h]
  have b: "balance d60_2 (2 * d4_9) d4_9 = Some (2 * d4_9, 788129934789837 / 281474976710656)"
    using t6 by simp
  have p: "dashPattern DASHED d4_9 d60_2 = Some (2 * d4_9, 788129934789837 / 281474976710656)"
    using t1 g(1) b by simp
  from h g b p show ?thesis by simp
qed

subsection \<open>The frame of renderDashedDottedBorder\<close>

text \<open>
  C10.  When \<open>boxPaths\<close> has the two entries the function reads, a call of
  \<open>renderDashedDottedBorder\<close> returns normally; the calls it adds begin with the one
  \<open>save\<close> and end with the one \<open>restore\<close>, so the save depth is unchanged; the objects
  it deletes are exactly the objects it created (the paint, the paths and the path
  effect), each once; and it leaves the active effects and the alpha stack alone.  This
  holds for every style, and whether or not \<open>MakeDash\<close> returns an object.
\<close>

theorem renderDashedDottedBorder_frame:
  assumes "2 \<le> length boxPaths"
  shows "\<exists>r' cs. renderDashedDottedBorder makeDash color width side strokePaths boxPaths style r = Inr r'
      \<and> calls r' = calls r @ [Save] @ cs @ [Restore]
      \<and> Save \<notin> set cs \<and> Restore \<notin> set cs
      \<and> saveDepth (calls r') = saveDepth (calls r)
      \<and> set (deleted cs) = set (created cs)
      \<and> distinct (created cs) \<and> distinct (deleted cs)
      \<and> activeEffects r' = activeEffects r \<and> globalAlpha r' = globalAlpha r"
proof -
  from assms obtain p0 p1 rest where bp: "boxPaths = p0 # p1 # rest"
    by (cases boxPaths; cases "tl boxPaths") auto
  show ?thesis
    unfolding bp renderDashedDottedBorder_def
    by (cases "style = DASHED"; cases "style = DOTTED";
        cases "makeDash (dashIntervals style
                 (do { sideLength \<leftarrow> borderLength side p0 p1; dashPattern style width sideLength }))")
       (auto simp add: Let_def createPaint_def createSkiaPath_def alloc_def release_def emit_def
          saveDepth_def split: prod.splits)
qed

theorem renderDashedDottedBorder_frame_witness:
  "2 \<le> length topSide
   \<and> (\<exists>r' cs. renderDashedDottedBorder (\<lambda>i. i \<noteq> None) 255 2 0 topSide topSide DASHED halfway = Inr r'
      \<and> calls r' = calls halfway @ [Save] @ cs @ [Restore]
      \<and> Save \<notin> set cs \<and> Restore \<notin> set cs
      \<and> saveDepth (calls r') = saveDepth (calls halfway)
      \<and> set (deleted cs) = set (created cs)
      \<and> distinct (created cs) \<and> distinct (deleted cs)
      \<and> activeEffects r' = activeEffects halfway \<and> globalAlpha r' = globalAlpha halfway)"
proof -
  have l: "2 \<le> length topSide" by (simp add: topSide_def)
  from l renderDashedDottedBorder_frame [OF l, of "\<lambda>i. i \<noteq> None" 255 2 0 topSide DASHED halfway]
  show ?thesis by simp
qed

subsection \<open>Radial gradients\<close>




subsection \<open>Text passes\<close>

lemma passes_append: "passes (xs @ ys) = passes xs @ passes ys"
  by (simp add: passes_def)

lemma passes_simps:
  "passes [] = []"
  "passes (c # cs) = passOf c @ passes cs"
  by (simp_all add: passes_def)

lemma renderLetter_fields:
  "globalAlpha (snd (renderLetter env ls y paint font (x, r) letter)) = globalAlpha r"
  "activeEffects (snd (renderLetter env ls y paint font (x, r) letter)) = activeEffects r"
  "passes (calls (snd (renderLetter env ls y paint font (x, r) letter)))
     = passes (calls r) @ [passOfPaint paint]"
  by (auto simp add: renderLetter_def Let_def alloc_def release_def emit_def passes_append
      passes_simps passOfPaint_def split: option.splits prod.splits)

lemma renderLetter_prefix:
  "\<exists>cs. calls (snd (renderLetter env ls y paint font (x, r) letter)) = calls r @ cs"
  by (auto simp add: renderLetter_def Let_def alloc_def release_def emit_def
      split: option.splits prod.splits)

lemma foldl_renderLetter_fields:
  "globalAlpha (snd (foldl (renderLetter env ls y paint font) (x, r) letters)) = globalAlpha r
   \<and> activeEffects (snd (foldl (renderLetter env ls y paint font) (x, r) letters)) = activeEffects r
   \<and> passes (calls (snd (foldl (renderLetter env ls y paint font) (x, r) letters)))
       = passes (calls r) @ replicate (length letters) (passOfPaint paint)
   \<and> (\<exists>cs. calls (snd (foldl (renderLetter env ls y paint font) (x, r) letters)) = calls r @ cs)"
proof (induction letters arbitrary: x r)
  case Nil
  then show ?case by simp
next
  case (Cons l letters)
  obtain x' r' where s: "renderLetter env ls y paint font (x, r) l = (x', r')"
    by (cases "renderLetter env ls y paint font (x, r) l")
  from renderLetter_fields[of env ls y paint font x r l] renderLetter_prefix[of env ls y paint font x r l] s
  have f: "globalAlpha r' = globalAlpha r" "activeEffects r' = activeEffects r"
    "passes (calls r') = passes (calls r) @ [passOfPaint paint]" "\<exists>cs. calls r' = calls r @ cs"
    by simp_all
  from Cons.IH[of x' r'] f s show ?case
    by (auto simp add: replicate_append_same)
qed

lemma renderText_fields:
  "globalAlpha (renderTextWithLetterSpacing env tb ls baseline paint font r) = globalAlpha r"
  "activeEffects (renderTextWithLetterSpacing env tb ls baseline paint font r) = activeEffects r"
  "passes (calls (renderTextWithLetterSpacing env tb ls baseline paint font r))
     = passes (calls r) @ replicate (drawsPerRun env font ls (tb_text tb)) (passOfPaint paint)"
  using foldl_renderLetter_fields[of env ls "b_top (tb_bounds tb) + baseline" paint font
      "b_left (tb_bounds tb)" r "segmentGraphemes env (tb_text tb)"]
  by (auto simp add: renderTextWithLetterSpacing_def drawsPerRun_def emit_def passes_append
      passes_simps passOfPaint_def)

lemma renderTextShadow_fields:
  "globalAlpha (renderTextShadow env styles baseline tb fillPaint font r shadow) = globalAlpha r"
  "passes (calls (renderTextShadow env styles baseline tb fillPaint font r shadow))
     = passes (calls r)
       @ shadowPasses (scale env) (ga_value (globalAlpha r))
           (drawsPerRun env font (letterSpacing styles) (tb_text tb)) shadow"
  by (simp_all add: renderTextShadow_def Let_def alloc_def release_def emit_def renderText_fields
      passes_append passes_simps passOfPaint_def shadowPasses_def parseColorWithAlpha_def
      split: prod.splits)

lemma foldl_renderTextShadow_fields:
  "globalAlpha (foldl (renderTextShadow env styles baseline tb fillPaint font) r shadows) = globalAlpha r
   \<and> passes (calls (foldl (renderTextShadow env styles baseline tb fillPaint font) r shadows))
     = passes (calls r)
       @ concat (map (shadowPasses (scale env) (ga_value (globalAlpha r))
                  (drawsPerRun env font (letterSpacing styles) (tb_text tb))) shadows)"
  by (induction shadows arbitrary: r) (simp_all add: renderTextShadow_fields)

lemma foldl_keeps:
  assumes "\<And>s x. P (f s x) = P s"
  shows "P (foldl f s xs) = P s"
  using assms by (induction xs arbitrary: s) simp_all

lemma renderDecorations_fields:
  "globalAlpha (renderDecorations styles baseline middle tb r) = globalAlpha r"
  "passes (calls (renderDecorations styles baseline middle tb r)) = passes (calls r)"
proof -
  have a: "\<And>p s xs. globalAlpha (foldl (drawDecoration baseline middle tb p) s xs) = globalAlpha s"
    by (rule foldl_keeps) (simp add: drawDecoration_def Let_def emit_def)
  have b: "\<And>p s xs. passes (calls (foldl (drawDecoration baseline middle tb p) s xs)) = passes (calls s)"
    by (rule foldl_keeps[where P="\<lambda>s. passes (calls s)"])
       (simp add: drawDecoration_def Let_def emit_def passes_append passes_simps)
  show "globalAlpha (renderDecorations styles baseline middle tb r) = globalAlpha r"
    by (simp add: renderDecorations_def Let_def createPaint_def alloc_def release_def emit_def a
        split: prod.splits)
  show "passes (calls (renderDecorations styles baseline middle tb r)) = passes (calls r)"
    by (simp add: renderDecorations_def Let_def createPaint_def alloc_def release_def emit_def b
        passes_append passes_simps split: prod.splits)
qed

lemma renderFillLayer_passes:
  assumes "textShadow styles \<noteq> []" and "trim (tb_text tb) \<noteq> []"
  shows "passes (calls (renderFillLayer env styles baseline middle tb font r))
     = passes (calls r)
       @ replicate (drawsPerRun env font (letterSpacing styles) (tb_text tb))
           (TextPass (Some (WithAlpha (st_color styles) (ga_value (globalAlpha r)))) None)
       @ concat (map (shadowPasses (scale env) (ga_value (globalAlpha r))
                  (drawsPerRun env font (letterSpacing styles) (tb_text tb)))
                  (rev (textShadow styles)))"
  using assms
  by (simp add: renderFillLayer_def Let_def createPaint_def alloc_def release_def emit_def
      renderDecorations_fields foldl_renderTextShadow_fields renderText_fields
      passes_append passes_simps passOfPaint_def parseColorWithAlpha_def split: prod.splits)

lemma renderLetter_fallback:
  assumes "getGlyphIDs font letter = [] \<or> 0 \<in> set (getGlyphIDs font letter)"
    and "fallbackFontProvider env = Some provider" and "provider letter = Some typeface"
  shows "renderLetter env ls y paint font (x, r) letter
     = (x + (case getGlyphWidths \<lparr>fontObj = nextObj r, fontTypeface = typeface, fontSize = getSize font\<rparr>
                     (getGlyphIDs font letter) of [] \<Rightarrow> 0 | a # _ \<Rightarrow> a) + ls,
        r\<lparr>calls := calls r @ [New KFont (nextObj r),
                                DrawText letter x y paint
                                  \<lparr>fontObj = nextObj r, fontTypeface = typeface, fontSize = getSize font\<rparr>,
                                Delete KFont (nextObj r)],
          nextObj := Suc (nextObj r)\<rparr>)"
  using assms
  by (auto simp add: renderLetter_def Let_def alloc_def release_def emit_def list_ex_iff
      split: list.splits)

text \<open>
  C7.  The claim has the running x advance by the fallback font's measured width of the
  grapheme.  \<open>renderTextWithLetterSpacing\<close> draws the grapheme with a temporary font of
  the fallback typeface at the primary font's size and deletes that font right after the
  draw, but it measures with the glyph ids of the primary font's lookup (line 264), which
  are the missing ones.  In the run of \<open>a\<close>, U+00E9 and \<open>b\<close> at size 16 the primary
  font has no glyph for U+00E9 (id 0) and is 8 wide per letter; the fallback font has the
  glyph 234 for it, 16 wide, and reports the width 0 for the id 0.  U+00E9 is drawn at
  x = 8 with the fallback font, and the \<open>b\<close> after it at x = 8 again, not at
  8 + 16 = 24.
\<close>

theorem fallback_advance_ignores_fallback_glyph:
  "segmentGraphemes plainText (tb_text cafe) = [''a'', [char_of (233::nat)], ''b'']
   \<and> getGlyphIDs latin16 [char_of (233::nat)] = [0]
   \<and> getGlyphWidths latin16 (getGlyphIDs latin16 ''a'') = [8]
   \<and> fallbackFontProvider plainText = Some (\<lambda>letter. Some symbols)
   \<and> getGlyphIDs \<lparr>fontObj = 0, fontTypeface = symbols, fontSize = 16\<rparr> [char_of (233::nat)] = [234]
   \<and> getGlyphWidths \<lparr>fontObj = 0, fontTypeface = symbols, fontSize = 16\<rparr> [234] = [16]
   \<and> getGlyphWidths \<lparr>fontObj = 0, fontTypeface = symbols, fontSize = 16\<rparr> [0] = [0]
   \<and> calls (renderTextWithLetterSpacing plainText cafe 0 12 ink latin16 fresh)
       = [DrawText ''a'' 0 12 ink latin16,
          New KFont 0,
          DrawText [char_of (233::nat)] 8 12 ink \<lparr>fontObj = 0, fontTypeface = symbols, fontSize = 16\<rparr>,
          Delete KFont 0,
          DrawText ''b'' 8 12 ink latin16]"
proof -
  have g: "getGlyphIDs latin16 [char_of (233::nat)] = [0]" "getGlyphIDs latin16 ''a'' = [97]"
    "getGlyphIDs latin16 ''b'' = [98]"
    by (simp_all add: getGlyphIDs_def latin16_def latin_def)
  have w: "getGlyphWidths latin16 ids = map (\<lambda>id. 8) ids" for ids
    by (simp add: getGlyphWidths_def latin16_def latin_def)
  have s: "getGlyphIDs \<lparr>fontObj = 0, fontTypeface = symbols, fontSize = 16\<rparr> [char_of (233::nat)] = [234]"
    "getGlyphWidths \<lparr>fontObj = 0, fontTypeface = symbols, fontSize = 16\<rparr> [234] = [16]"
    "getGlyphWidths \<lparr>fontObj = 0, fontTypeface = symbols, fontSize = 16\<rparr> [0] = [0]"
    by (simp_all add: getGlyphIDs_def getGlyphWidths_def symbols_def)
  have e: "segmentGraphemes plainText (tb_text cafe) = [''a'', [char_of (233::nat)], ''b'']"
    "fallbackFontProvider plainText = Some (\<lambda>letter. Some symbols)"
    "tb_bounds cafe = \<lparr>b_left = 0, b_top = 0, b_width = 30, b_height = 10\<rparr>"
    by (simp_all add: plainText_def cafe_def)
  have m: "areGlyphsMissing latin16 (tb_text cafe)"
    by (simp add: areGlyphsMissing_def getGlyphIDs_def latin16_def latin_def cafe_def)
  have z: "getSize latin16 = 16" by (simp add: getSize_def latin16_def)
  have c: "calls (renderTextWithLetterSpacing plainText cafe 0 12 ink latin16 fresh)
       = [DrawText ''a'' 0 12 ink latin16,
          New KFont 0,
          DrawText [char_of (233::nat)] 8 12 ink \<lparr>fontObj = 0, fontTypeface = symbols, fontSize = 16\<rparr>,
          Delete KFont 0,
          DrawText ''b'' 8 12 ink latin16]"
    unfolding renderTextWithLetterSpacing_def
    by (simp add: m e renderLetter_def Let_def g w s z alloc_def release_def emit_def fresh_def)
  from e(1,2) g(1) w[of "getGlyphIDs latin16 ''a''"] g(2) s c show ?thesis by simp
qed

lemma example_fields:
  "letterSpacing shadowed = 0" "st_color shadowed = 255"
  "textShadow shadowed = [\<lparr>ts_color = 128, ts_offsetX = 1, ts_offsetY = 2, ts_blur = 4\<rparr>,
                          \<lparr>ts_color = 64, ts_offsetX = 3, ts_offsetY = 4, ts_blur = 2\<rparr>]"
  "paintOrder shadowed = [FILL, STROKE]" "webkitTextStrokeWidth shadowed = 0"
  "scale plainText = 1" "globalAlpha fresh = [1]" "calls fresh = []"
  "b_width (tb_bounds hi) = 20" "b_height (tb_bounds hi) = 10"
  by (simp_all add: shadowed_def plainText_def fresh_def hi_def)

text \<open>
  C3.  The claim has the shadows drawn before the main fill pass, as CSS text shadows
  are: they lie beneath the glyphs.  \<open>renderTextNode\<close> draws the fill first and the
  shadows over it.  For the run \<open>Hi\<close> with the two shadows of \<open>shadowed\<close> the first text
  pass of the trace is the unblurred fill in the text colour 255; the shadow passes
  follow it, the shadow declared last (colour 64, offset (3, 4), blur 2) first, each
  between a save with the translation by its offset and a restore, with its own colour
  at the current alpha and half its blur as sigma.
\<close>

theorem fill_pass_precedes_shadows:
  "passes (calls (renderTextNode plainText latin 16 12 6 [hi] shadowed fresh))
     = [TextPass (Some (WithAlpha 255 1)) None,
        Saved, Offset 3 4, TextPass (Some (WithAlpha 64 1)) (Some 1), Restored,
        Saved, Offset 1 2, TextPass (Some (WithAlpha 128 1)) (Some 2), Restored]"
proof -
  have t: "trim (tb_text hi) \<noteq> []"
    by (simp add: trim_def hi_def isWhiteSpace_def)
  have s: "textShadow shadowed \<noteq> []"
    by (simp add: shadowed_def)
  have k: "drawsPerRun plainText f 0 (tb_text hi) = 1" if "fontTypeface f = latin" for f
    using that by (simp add: drawsPerRun_def areGlyphsMissing_def getGlyphIDs_def latin_def hi_def)
  show ?thesis
    by (simp add: renderTextNode_def Let_def alloc_def release_def emit_def
        renderFillLayer_passes[OF s t] renderStrokeLayer_def passes_append passes_simps k
        shadowPasses_def example_fields ga_value_def)
qed

subsection \<open>Colour strings\<close>






























text \<open>
  \<open>parseFloat\<close> rounds to doubles: a literal beyond the largest double is an infinity,
  and 17 significant digits give back the double they were printed from (the first is
  1/255, the second 128/255).
\<close>

lemma parseFloat_rounds:
  "parseFloat ''1e309'' = PosInf"
  "parseFloat ''-1e309'' = NegInf"
  "parseFloat ''0.00392156862745098'' = roundNum (1 / 255)"
  "parseFloat ''0.5019607843137255'' = roundNum (128 / 255)"
  "parseFloat '' 0.8'' = Num (3602879701896397 / 4503599627370496)"
  by code_simp+




end
